theory Spec2Isabelle
  imports Complex_Main
begin

section \<open>Arrays, errors and random keys\<close>

text \<open>
  The program computes with JAX arrays of floating-point numbers. Here an array is a list of
  real numbers (rank 1), a list of such lists (rank 2: a batch of \<open>N\<close> points of dimension
  \<open>d\<close>) or one level more (rank 3: a batch of matrices). Real arithmetic has no rounding, no
  \<open>NaN\<close> and no infinity: where the floating-point code would produce one of those (the
  square root of a negative number, a division by zero, the mean of an empty array) the
  theorems below carry the hypothesis that excludes it, or do not depend on the value.

  An array operation that raises on incompatible shapes returns \<open>Inl ShapeError\<close>. Elementwise
  binary operations follow numpy's broadcasting rule on every axis: two axes are compatible
  when they have the same size or one of them has size 1.
\<close>

datatype error = ShapeError | IndexError | KeyError | TypeError | AttributeError

type_synonym vec = "real list"
type_synonym mat = "real list list"
type_synonym ten = "real list list list"

definition bind_err :: "error + 'a \<Rightarrow> ('a \<Rightarrow> error + 'b) \<Rightarrow> error + 'b" where
  "bind_err r f = (case r of Inl e \<Rightarrow> Inl e | Inr v \<Rightarrow> f v)"

fun collect :: "(error + 'a) list \<Rightarrow> error + 'a list" where
  "collect [] = Inr []"
| "collect (Inl e # rs) = Inl e"
| "collect (Inr v # rs) = (case collect rs of Inl e \<Rightarrow> Inl e | Inr vs \<Rightarrow> Inr (v # vs))"

text \<open>The size of a broadcast axis, and an axis of size 1 repeated to that size.\<close>

definition bdim :: "nat \<Rightarrow> nat \<Rightarrow> nat option" where
  "bdim m n = (if m = n then Some m else if m = 1 then Some n else if n = 1 then Some m else None)"

definition stretch :: "nat \<Rightarrow> 'a list \<Rightarrow> 'a list" where
  "stretch n xs = (if length xs = n then xs else replicate n (hd xs))"

definition bcast2 :: "('a \<Rightarrow> 'b \<Rightarrow> error + 'c) \<Rightarrow> 'a list \<Rightarrow> 'b list \<Rightarrow> error + 'c list" where
  "bcast2 f xs ys =
     (case bdim (length xs) (length ys) of
        None \<Rightarrow> Inl ShapeError
      | Some n \<Rightarrow> collect (map2 f (stretch n xs) (stretch n ys)))"

definition vsub :: "vec \<Rightarrow> vec \<Rightarrow> error + vec" where
  "vsub = bcast2 (\<lambda>a b. Inr (a - b))"

definition msub :: "mat \<Rightarrow> mat \<Rightarrow> error + mat" where
  "msub = bcast2 vsub"

definition vmul :: "vec \<Rightarrow> vec \<Rightarrow> error + vec" where
  "vmul = bcast2 (\<lambda>a b. Inr (a * b))"

definition vadd :: "vec \<Rightarrow> vec \<Rightarrow> error + vec" where
  "vadd = bcast2 (\<lambda>a b. Inr (a + b))"

definition zeros_like :: "mat \<Rightarrow> mat" where
  "zeros_like x = map (map (\<lambda>_. 0)) x"

text \<open>
  \<open>jnp.einsum\<close> at the two subscript strings the program uses. The leading \<open>...\<close> is the batch
  axis. Each index letter names one axis; the axes sharing a letter must have the same size,
  and the letters absent from the output are summed over.
\<close>

definition ncols :: "'a list list \<Rightarrow> nat" where
  "ncols A = (case A of [] \<Rightarrow> 0 | r # _ \<Rightarrow> length r)"

definition rect :: "'a list list \<Rightarrow> bool" where
  "rect A = list_all (\<lambda>r. length r = ncols A) A"

text \<open>\<open>"ij,kj,k->i"\<close> on one batch element: \<open>out[i] = sum_j sum_k A[i,j] * B[k,j] * s[k]\<close>.\<close>

definition einsum_ij_kj_k :: "mat \<Rightarrow> mat \<Rightarrow> vec \<Rightarrow> error + vec" where
  "einsum_ij_kj_k A B s =
     (if rect A \<and> rect B \<and> ncols A = ncols B \<and> length B = length s
      then Inr (map (\<lambda>i. \<Sum>j\<leftarrow>[0..<ncols A]. \<Sum>k\<leftarrow>[0..<length s]. A ! i ! j * B ! k ! j * s ! k)
                  [0..<length A])
      else Inl ShapeError)"

text \<open>\<open>"...ij,...kj,...k->...i"\<close>\<close>

definition einsum_matrix :: "ten \<Rightarrow> ten \<Rightarrow> mat \<Rightarrow> error + mat" where
  "einsum_matrix G G' S =
     (case bdim (length G) (length G') of
        None \<Rightarrow> Inl ShapeError
      | Some m \<Rightarrow>
         (case bdim m (length S) of
            None \<Rightarrow> Inl ShapeError
          | Some n \<Rightarrow>
              collect (map (\<lambda>b. einsum_ij_kj_k (stretch n G ! b) (stretch n G' ! b) (stretch n S ! b))
                         [0..<n])))"

text \<open>\<open>"...,...,...i->...i"\<close>: \<open>out[b,i] = D[b] * D'[b] * S[b,i]\<close>.\<close>

definition einsum_scalar :: "vec \<Rightarrow> vec \<Rightarrow> mat \<Rightarrow> error + mat" where
  "einsum_scalar D D' S =
     (case bdim (length D) (length D') of
        None \<Rightarrow> Inl ShapeError
      | Some m \<Rightarrow>
         (case bdim m (length S) of
            None \<Rightarrow> Inl ShapeError
          | Some n \<Rightarrow>
              Inr (map (\<lambda>b. map (\<lambda>si. stretch n D ! b * stretch n D' ! b * si) (stretch n S ! b))
                     [0..<n])))"

text \<open>
  A key of \<open>jax.random\<close>. \<open>random.split\<close> derives two new keys from a key; a key is identified
  here with the way it was derived from the seed, so that two keys are equal exactly when they
  are the same key of the same derivation. The bits of a key are not represented: that two
  derivations never meet in the same bits is a property of the generator of \<open>jax.random\<close>,
  which is taken for granted here.
\<close>

datatype key = PRNGKey nat | SplitKey key nat

definition random_split :: "key \<Rightarrow> key \<times> key" where
  "random_split k = (SplitKey k 0, SplitKey k 1)"

section \<open>sde.py\<close>

subsection \<open>The manifold and the SDE objects\<close>

text \<open>
  The manifold is an external collaborator: its operations are parameters of the model.
  \<open>random_walk\<close> returns \<open>None\<close> when the manifold has no closed-form sample.
\<close>

record manifold =
  random_walk :: "key \<Rightarrow> mat \<Rightarrow> vec \<Rightarrow> mat option"
  log_heat_kernel :: "vec \<Rightarrow> vec \<Rightarrow> real \<Rightarrow> vec"
  random_uniform :: "key \<Rightarrow> nat \<Rightarrow> mat"
  log_volume :: real
  squared_norm :: "mat \<Rightarrow> mat \<Rightarrow> vec"

text \<open>
  A diffusion coefficient is an array: one number per batch element (shape \<open>(N)\<close>) or one
  matrix per batch element (shape \<open>(N, i, j)\<close>).
\<close>

datatype diffusion = ScalarDiffusion vec | MatrixDiffusion ten

text \<open>The attributes that \<open>Brownian.__init__\<close> sets.\<close>

record brownian =
  t0 :: real
  tf :: real
  beta_0 :: real
  beta_f :: real
  manifold :: manifold

text \<open>
  \<open>ReverseBrownian.__init__\<close> accepts any object \<open>sde\<close> that has the attributes \<open>manifold\<close>,
  \<open>t0\<close>, \<open>tf\<close>, \<open>full_diffusion_matrix\<close> and the method \<open>coefficients\<close>. An object of a
  class defined outside \<open>sde.py\<close> is a record of exactly these members.
\<close>

record other_sde =
  o_t0 :: real
  o_tf :: real
  o_manifold :: manifold
  o_full_diffusion_matrix :: bool
  o_coefficients :: "mat \<Rightarrow> vec \<Rightarrow> mat \<times> diffusion"

datatype sde =
    OtherSDE other_sde
  | Brownian brownian
  | ReverseBrownian brownian sde "mat \<Rightarrow> vec \<Rightarrow> mat"

fun sde_t0 :: "sde \<Rightarrow> real" where
  "sde_t0 (OtherSDE f) = o_t0 f"
| "sde_t0 (Brownian a) = t0 a"
| "sde_t0 (ReverseBrownian a s score_fn) = t0 a"

fun sde_tf :: "sde \<Rightarrow> real" where
  "sde_tf (OtherSDE f) = o_tf f"
| "sde_tf (Brownian a) = tf a"
| "sde_tf (ReverseBrownian a s score_fn) = tf a"

fun sde_manifold :: "sde \<Rightarrow> manifold" where
  "sde_manifold (OtherSDE f) = o_manifold f"
| "sde_manifold (Brownian a) = manifold a"
| "sde_manifold (ReverseBrownian a s score_fn) = manifold a"

text \<open>
  Modelled from the spec: the class attribute \<open>full_diffusion_matrix\<close> of the base class
  \<open>SDE\<close> (module \<open>score_sde.sde\<close>, not part of the sources at hand). \<open>Brownian\<close> and
  \<open>ReverseBrownian\<close> inherit it unchanged. The Brownian SDE has a scalar diffusion, and an
  SDE declares a matrix-valued diffusion only when it has one, so the inherited value is
  \<open>False\<close>.
\<close>

definition SDE_full_diffusion_matrix :: bool where
  "SDE_full_diffusion_matrix = False"

fun full_diffusion_matrix :: "sde \<Rightarrow> bool" where
  "full_diffusion_matrix (OtherSDE f) = o_full_diffusion_matrix f"
| "full_diffusion_matrix (Brownian a) = SDE_full_diffusion_matrix"
| "full_diffusion_matrix (ReverseBrownian a s score_fn) = SDE_full_diffusion_matrix"

subsection \<open>class Brownian\<close>

text \<open>
  \<open>__init__(self, manifold, tf, t0=0, beta_0=0.1, beta_f=20)\<close>: an argument left out is
  \<open>None\<close> here and takes its default.
\<close>

definition Brownian_init ::
  "manifold \<Rightarrow> real \<Rightarrow> real option \<Rightarrow> real option \<Rightarrow> real option \<Rightarrow> brownian" where
  "Brownian_init m tf' t0' beta_0' beta_f' =
     \<lparr> t0 = (case t0' of None \<Rightarrow> 0 | Some v \<Rightarrow> v),
       tf = tf',
       beta_0 = (case beta_0' of None \<Rightarrow> 1 / 10 | Some v \<Rightarrow> v),
       beta_f = (case beta_f' of None \<Rightarrow> 20 | Some v \<Rightarrow> v),
       manifold = m \<rparr>"

definition beta_t :: "brownian \<Rightarrow> real \<Rightarrow> real" where
  "beta_t self t =
     (let normed_t = (t - t0 self) / (tf self - t0 self)
      in beta_0 self + normed_t * (beta_f self - beta_0 self))"

definition Brownian_coefficients :: "brownian \<Rightarrow> mat \<Rightarrow> vec \<Rightarrow> mat \<times> diffusion" where
  "Brownian_coefficients self x t =
     (let beta = map (beta_t self) t;
          drift = zeros_like x;
          diffusion = ScalarDiffusion (map sqrt beta)
      in (drift, diffusion))"

definition marginal_prob :: "brownian \<Rightarrow> mat \<Rightarrow> vec \<Rightarrow> mat \<times> vec" where
  "marginal_prob self x t =
     (let log_mean_coeff =
            map (\<lambda>t. - (1 / 4) * t ^ 2 * (beta_f self - beta_0 self) - (1 / 2) * t * beta_0 self) t;
          std = map (\<lambda>c. sqrt (1 - exp (2 * c))) log_mean_coeff
      in (zeros_like x, std))"

text \<open>
  \<open>marginal_sample\<close> calls the external predictor-corrector sampler when the manifold has no
  closed form. The call is a value: the arguments of \<open>get_pc_sampler\<close> (the SDE, the number of
  steps, the predictor's name, the corrector) and those of the sampler it returns (the key,
  the start point and the final time). The external sampler is the parameter \<open>pc\<close>; the
  function returns the sample together with the calls it made.
\<close>

datatype sampler_call = SamplerCall sde nat string "string option" key mat vec

definition marginal_sample ::
  "(sampler_call \<Rightarrow> mat \<times> 'aux) \<Rightarrow> sde \<Rightarrow> key \<Rightarrow> mat \<Rightarrow> vec \<Rightarrow> mat \<times> sampler_call list" where
  "marginal_sample pc self rng x t =
     (case random_walk (sde_manifold self) rng x t of
        Some perturbed_x \<Rightarrow> (perturbed_x, [])
      | None \<Rightarrow>
          (let call = SamplerCall self 100 ''EulerMaruyamaManifoldPredictor'' None rng x t
           in (fst (pc call), [call])))"

text \<open>\<open>jnp.reshape(a, ())\<close> succeeds on an array with exactly one element.\<close>

definition reshape_scalar :: "vec \<Rightarrow> error + real" where
  "reshape_scalar a = (case a of [v] \<Rightarrow> Inr v | _ \<Rightarrow> Inl ShapeError)"

definition marginal_log_prob :: "brownian \<Rightarrow> vec \<Rightarrow> vec \<Rightarrow> real \<Rightarrow> error + real" where
  "marginal_log_prob self x0 x t =
     (let s = 2 * ((1 / 4) * t ^ 2 * (beta_f self - beta_0 self) + (1 / 2) * t * beta_0 self)
      in reshape_scalar (log_heat_kernel (manifold self) x0 x s))"

subsection \<open>class ReverseBrownian\<close>

text \<open>\<open>super().__init__(sde.manifold, tf=sde.t0, t0=sde.tf)\<close>, then the two own attributes.\<close>

definition ReverseBrownian_init :: "sde \<Rightarrow> (mat \<Rightarrow> vec \<Rightarrow> mat) \<Rightarrow> sde" where
  "ReverseBrownian_init s score_fn =
     ReverseBrownian (Brownian_init (sde_manifold s) (sde_t0 s) (Some (sde_tf s)) None None) s score_fn"

text \<open>
  \<open>coefficients\<close>, dispatched on the class of the object. The arrays are the ones the two
  \<open>einsum\<close> calls are written for: a drift and a score of rank 2, a diffusion of rank 1 when
  \<open>full_diffusion_matrix\<close> is false and of rank 3 when it is true. With the flag true and a
  diffusion of rank 1 the subscripts \<open>...ij\<close> find no two dimensions to name and the call
  raises: a \<open>ShapeError\<close>. With the flag false and a diffusion of rank 3 the ellipsis of
  \<open>...,...,...i->...i\<close> takes all three dimensions of the diffusion; the call raises when
  they do not broadcast against the batch dimension of the score and returns a drift of
  rank 4 when they do. The drift here is of rank 2, so this second case is not represented:
  the whole branch has the value \<open>ShapeError\<close>, and the theorems about the reverse drift are
  stated for a diffusion of the kind the flag declares.
\<close>

fun coefficients :: "sde \<Rightarrow> mat \<Rightarrow> vec \<Rightarrow> error + mat \<times> diffusion" where
  "coefficients (OtherSDE f) x t = Inr (o_coefficients f x t)"
| "coefficients (Brownian a) x t = Inr (Brownian_coefficients a x t)"
| "coefficients (ReverseBrownian a s score_fn) x t =
     bind_err (coefficients s x t) (\<lambda>(forward_drift, diffusion).
       let score = score_fn x t in
       if full_diffusion_matrix s then
         (case diffusion of
            MatrixDiffusion G \<Rightarrow>
              bind_err (einsum_matrix G G score) (\<lambda>ggs.
              bind_err (msub forward_drift ggs) (\<lambda>reverse_drift.
              Inr (reverse_drift, diffusion)))
          | ScalarDiffusion D \<Rightarrow> Inl ShapeError)
       else
         (case diffusion of
            ScalarDiffusion D \<Rightarrow>
              bind_err (einsum_scalar D D score) (\<lambda>ggs.
              bind_err (msub forward_drift ggs) (\<lambda>reverse_drift.
              Inr (reverse_drift, diffusion)))
          | MatrixDiffusion G \<Rightarrow> Inl ShapeError))"

text \<open>
  \<open>reverse\<close>, dispatched on the class of the object. \<open>Brownian.reverse(self, score_fn)\<close> takes
  a score function, \<open>ReverseBrownian.reverse(self)\<close> takes none: a call with the wrong number
  of arguments is a \<open>TypeError\<close>. The argument is \<open>None\<close> when the call passes none.
\<close>

fun reverse :: "sde \<Rightarrow> (mat \<Rightarrow> vec \<Rightarrow> mat) option \<Rightarrow> error + sde" where
  "reverse (Brownian a) (Some score_fn) = Inr (ReverseBrownian_init (Brownian a) score_fn)"
| "reverse (Brownian a) None = Inl TypeError"
| "reverse (ReverseBrownian a s score_fn) None = Inr s"
| "reverse (ReverseBrownian a s score_fn) (Some score_fn') = Inl TypeError"
| "reverse (OtherSDE f) arg = Inl AttributeError"

section \<open>losses.py\<close>

subsection \<open>Library functions and external collaborators\<close>

text \<open>
  \<open>jax.random.uniform(key, (n,), minval, maxval)\<close>: every draw takes 23 of the 32 random bits
  as the mantissa of a number \<open>u\<close> in \<open>[0, 1)\<close> and returns
  \<open>max(minval, u * (maxval - minval) + minval)\<close>. The generator of the random bits is the
  parameter \<open>bits\<close>.
\<close>

definition unit_float :: "nat \<Rightarrow> real" where
  "unit_float b = real (b div 2 ^ 9 mod 2 ^ 23) / 2 ^ 23"

definition jax_uniform :: "(key \<Rightarrow> nat \<Rightarrow> nat) \<Rightarrow> key \<Rightarrow> nat \<Rightarrow> real \<Rightarrow> real \<Rightarrow> vec" where
  "jax_uniform bits rng n minval maxval =
     map (\<lambda>i. max minval (unit_float (bits rng i) * (maxval - minval) + minval)) [0..<n]"

definition shape :: "mat \<Rightarrow> nat list" where
  "shape x = [length x, ncols x]"

definition expand_dims_last :: "vec \<Rightarrow> mat" where
  "expand_dims_last v = map (\<lambda>s. [s]) v"

definition jnp_square :: "mat \<Rightarrow> mat" where
  "jnp_square a = map (map (\<lambda>v. v ^ 2)) a"

definition jnp_mean :: "vec \<Rightarrow> real" where
  "jnp_mean xs = sum_list xs / real (length xs)"

text \<open>
  \<open>seq[i]\<close> on a Python sequence of length \<open>n\<close>: the indices \<open>0 .. n - 1\<close> count from the
  front, the indices \<open>-n .. -1\<close> from the back, every other index raises.
\<close>

definition py_index :: "'a list \<Rightarrow> int \<Rightarrow> error + 'a" where
  "py_index seq i =
     (if 0 \<le> i \<and> i < int (length seq) then Inr (seq ! nat i)
      else if i < 0 \<and> - int (length seq) \<le> i then Inr (seq ! nat (int (length seq) + i))
      else Inl IndexError)"

text \<open>
  Modelled from the spec: \<open>batch_mul\<close> of \<open>score_sde.utils\<close> is not part of the sources at
  hand. The loss functions use it to scale, for each batch element, one array by another
  (the score by the standard deviation, the negative part by the inverse prior density):
  the product \<open>a[n] * b[n]\<close> is taken for every batch element \<open>n\<close>, and the two arrays must
  have the same batch size.
\<close>

definition batch_mul :: "mat \<Rightarrow> mat \<Rightarrow> error + mat" where
  "batch_mul a b = (if length a = length b then collect (map2 vmul a b) else Inl ShapeError)"

definition batch_mul_vec :: "vec \<Rightarrow> vec \<Rightarrow> error + vec" where
  "batch_mul_vec a b = (if length a = length b then Inr (map2 (*) a b) else Inl ShapeError)"

text \<open>
  Modelled from the spec: \<open>get_div_fn\<close> of \<open>score_sde.models\<close> is not part of the sources at
  hand. The divergence estimator takes the directional derivative of the vector field along
  the noise (a Jacobian-vector product) and its inner product with the noise, for each batch
  element. Automatic differentiation is a primitive: the parameter \<open>jvp f x v\<close> is the
  derivative of \<open>f\<close> at \<open>x\<close> in the direction \<open>v\<close>.
\<close>

type_synonym jvp = "(mat \<Rightarrow> mat) \<Rightarrow> mat \<Rightarrow> mat \<Rightarrow> mat"

definition get_div_fn :: "jvp \<Rightarrow> (mat \<Rightarrow> vec \<Rightarrow> mat) \<Rightarrow> string \<Rightarrow> mat \<Rightarrow> vec \<Rightarrow> mat \<Rightarrow> vec" where
  "get_div_fn jvp fn hutchinson_type x t eps =
     (let grad_fn_eps = jvp (\<lambda>x. fn x t) x eps
      in map2 (\<lambda>g e. sum_list (map2 (*) g e)) grad_fn_eps eps)"

text \<open>
  The SDE object as the loss functions use it (\<open>pushforward.sde\<close>): its interval and its
  methods, \<open>sde.manifold.metric.squared_norm\<close> included. \<open>s_marginal_sample_hist\<close> is
  \<open>marginal_sample\<close> called with \<open>return_hist=True\<close>. The diffusion coefficient is one number
  per batch element.
\<close>

record ('ts, 'dt) sde_obj =
  s_t0 :: real
  s_tf :: real
  s_marginal_sample :: "key \<Rightarrow> mat \<Rightarrow> vec \<Rightarrow> mat"
  s_marginal_sample_hist :: "key \<Rightarrow> mat \<Rightarrow> vec \<Rightarrow> mat \<times> mat list \<times> 'ts list"
  s_grad_marginal_log_prob :: "mat \<Rightarrow> mat \<Rightarrow> vec \<Rightarrow> vec \<times> mat"
  s_varhadan_exp :: "mat \<Rightarrow> mat \<Rightarrow> 'ts \<Rightarrow> 'ts \<Rightarrow> mat \<times> 'dt"
  s_marginal_prob :: "mat \<Rightarrow> vec \<Rightarrow> mat \<times> vec"
  s_coefficients :: "mat \<Rightarrow> vec \<Rightarrow> mat \<times> vec"
  s_squared_norm :: "mat \<Rightarrow> mat \<Rightarrow> vec"

text \<open>The base distribution of the Moser flow (\<open>pushforward.base\<close>).\<close>

record base_dist =
  log_prob :: "mat \<Rightarrow> vec"
  sample :: "key \<Rightarrow> nat \<Rightarrow> mat"

text \<open>
  The functions imported from \<open>jax\<close> and \<open>score_sde\<close> whose code is a parameter: the random
  bits behind \<open>random.uniform\<close>, \<open>get_score_fn\<close> (called with \<open>return_state=True\<close>: the score
  function it returns takes \<open>(x, t, rng)\<close> and returns the score and the new model state),
  \<open>get_ode_drift_fn\<close>, \<open>div_noise\<close> and the differentiation primitive.
\<close>

record ('ts, 'dt, 'model, 'p, 'st) externals =
  uniform_bits :: "key \<Rightarrow> nat \<Rightarrow> nat"
  get_score_fn ::
    "('ts, 'dt) sde_obj \<Rightarrow> 'model \<Rightarrow> 'p \<Rightarrow> 'st \<Rightarrow> bool \<Rightarrow> mat \<Rightarrow> vec \<Rightarrow> key \<Rightarrow> mat \<times> 'st"
  get_ode_drift_fn :: "'model \<Rightarrow> 'p \<Rightarrow> 'st \<Rightarrow> mat \<Rightarrow> vec \<Rightarrow> mat"
  div_noise :: "key \<Rightarrow> nat list \<Rightarrow> string \<Rightarrow> mat"
  jax_jvp :: jvp

subsection \<open>The keys of a loss evaluation\<close>

text \<open>
  Each loss function threads its key through \<open>rng, step_rng = random.split(rng)\<close> and hands
  the current \<open>step_rng\<close> to the stochastic operations that follow. The key each operation
  receives: the draw of the times, the marginal sample, the evaluation of the score, the draw
  of the divergence noise, and the score evaluations inside the divergence (the key that the
  closure \<open>drift_fn\<close> captures).
\<close>

record dsm_keys =
  time_key :: key
  sample_key :: key
  score_key :: key

record ism_keys = dsm_keys +
  noise_key :: key
  div_score_key :: key

definition dsm_key_schedule :: "key \<Rightarrow> dsm_keys" where
  "dsm_key_schedule rng =
     (let (rng, step_rng) = random_split rng;
          for_t = step_rng;
          (rng, step_rng) = random_split rng
      in \<lparr> time_key = for_t, sample_key = step_rng, score_key = step_rng \<rparr>)"

definition ism_key_schedule :: "key \<Rightarrow> ism_keys" where
  "ism_key_schedule rng =
     (let (rng, step_rng) = random_split rng;
          for_t = step_rng;
          (rng, step_rng) = random_split rng;
          for_x_t = step_rng;
          (rng, step_rng) = random_split rng
      in \<lparr> time_key = for_t, sample_key = for_x_t, score_key = for_x_t,
           noise_key = step_rng, div_score_key = step_rng \<rparr>)"

text \<open>
  In the Moser loss the closure \<open>mu\<close> reads \<open>step_rng\<close> when it is called: the call on the data
  reads the first split, the call on the base samples reads the second split, which also
  draws the base samples.
\<close>

record moser_keys =
  data_noise_key :: key
  base_sample_key :: key
  base_noise_key :: key

definition moser_key_schedule :: "key \<Rightarrow> moser_keys" where
  "moser_key_schedule rng =
     (let (rng, step_rng) = random_split rng;
          for_x_0 = step_rng;
          (rng, step_rng) = random_split rng
      in \<lparr> data_noise_key = for_x_0, base_sample_key = step_rng, base_noise_key = step_rng \<rparr>)"

subsection \<open>get_dsm_loss_fn\<close>

text \<open>The times of a batch: \<open>random.uniform(step_rng, (x_0.shape[0],), sde.t0 + eps, sde.tf)\<close>.\<close>

definition sample_t ::
  "(key \<Rightarrow> nat \<Rightarrow> nat) \<Rightarrow> key \<Rightarrow> ('ts, 'dt) sde_obj \<Rightarrow> real \<Rightarrow> mat \<Rightarrow> vec" where
  "sample_t bits step_rng sde eps x_0 =
     jax_uniform bits step_rng (length x_0) (s_t0 sde + eps) (s_tf sde)"

definition reduce_op :: "bool \<Rightarrow> vec \<Rightarrow> real" where
  "reduce_op reduce_mean row = (if reduce_mean then jnp_mean row else (1 / 2) * sum_list row)"

text \<open>
  \<open>losses.reshape((losses.shape[0], -1))\<close> on an array of rank 2 returns the array as it is.
  On an empty batch it raises: the size of the second axis cannot be inferred from an array
  without elements.
\<close>

definition reshape_rows :: "mat \<Rightarrow> error + mat" where
  "reshape_rows losses = (if length losses = 0 then Inl ShapeError else Inr losses)"

text \<open>The weighting (the branches on \<open>like_w\<close>), from the score, the target and \<open>std\<close>.\<close>

definition dsm_weighted_losses ::
  "('ts, 'dt) sde_obj \<Rightarrow> bool \<Rightarrow> bool \<Rightarrow> mat \<Rightarrow> vec \<Rightarrow> mat \<Rightarrow> mat \<Rightarrow> mat \<Rightarrow> error + vec" where
  "dsm_weighted_losses sde reduce_mean like_w x_0 t std score logp_grad =
     (if \<not> like_w then
        bind_err (batch_mul std score) (\<lambda>score.
        bind_err (batch_mul std logp_grad) (\<lambda>logp_grad.
        bind_err (msub score logp_grad) (\<lambda>difference.
        let losses = jnp_square difference
        in bind_err (reshape_rows losses) (\<lambda>rows.
           Inr (map (reduce_op reduce_mean) rows)))))
      else
        (let g2 = map (\<lambda>g. g ^ 2) (snd (s_coefficients sde (zeros_like x_0) t))
         in bind_err (msub score logp_grad) (\<lambda>difference.
            let losses = jnp_square difference
            in bind_err (reshape_rows losses) (\<lambda>rows.
               vmul (map (reduce_op reduce_mean) rows) g2))))"

text \<open>
  The body of \<open>loss_fn\<close> up to the array \<open>losses\<close> of the per-example losses. The keyword
  arguments \<open>**kwargs\<close> are passed on to \<open>grad_marginal_log_prob\<close> unread and are left out.
\<close>

definition dsm_per_example_losses ::
  "('ts, 'dt, 'model, 'p, 'st) externals \<Rightarrow> ('ts, 'dt) sde_obj \<Rightarrow> 'model \<Rightarrow> bool \<Rightarrow> bool \<Rightarrow> bool \<Rightarrow>
   real \<Rightarrow> bool \<Rightarrow> key \<Rightarrow> 'p \<Rightarrow> 'st \<Rightarrow> (string \<rightharpoonup> mat) \<Rightarrow> error + vec \<times> 'st" where
  "dsm_per_example_losses ext sde model train reduce_mean like_w eps s_zero rng params states batch =
     (let score_fn = get_score_fn ext sde model params states train in
      case batch ''data'' of
        None \<Rightarrow> Inl KeyError
      | Some x_0 \<Rightarrow>
         (let keys = dsm_key_schedule rng;
              t = sample_t (uniform_bits ext) (time_key keys) sde eps x_0
          in bind_err
              (if s_zero then
                 (let x_t = s_marginal_sample sde (sample_key keys) x_0 t;
                      logp_grad = snd (s_grad_marginal_log_prob sde x_0 x_t t);
                      std = expand_dims_last (snd (s_marginal_prob sde (zeros_like x_t) t))
                  in Inr (x_t, logp_grad, std))
               else
                 (let (x_t, x_hist, timesteps) = s_marginal_sample_hist sde (sample_key keys) x_0 t
                  in bind_err (py_index x_hist (- 2)) (\<lambda>x_s.
                     bind_err (py_index timesteps (- 2)) (\<lambda>t_s.
                     bind_err (py_index timesteps (- 1)) (\<lambda>t_t.
                     let (logp_grad, delta_t) = s_varhadan_exp sde x_s x_t t_s t_t;
                         delta_t = t;
                         std = expand_dims_last (snd (s_marginal_prob sde (zeros_like x_t) delta_t))
                     in Inr (x_t, logp_grad, std))))))
              (\<lambda>(x_t, logp_grad, std).
                 let (score, new_model_state) = score_fn x_t t (score_key keys)
                 in bind_err (dsm_weighted_losses sde reduce_mean like_w x_0 t std score logp_grad)
                      (\<lambda>losses. Inr (losses, new_model_state)))))"

text \<open>\<open>loss = jnp.mean(losses)\<close>, returned with the new model state.\<close>

definition dsm_loss_fn ::
  "('ts, 'dt, 'model, 'p, 'st) externals \<Rightarrow> ('ts, 'dt) sde_obj \<Rightarrow> 'model \<Rightarrow> bool \<Rightarrow> bool \<Rightarrow> bool \<Rightarrow>
   real \<Rightarrow> bool \<Rightarrow> key \<Rightarrow> 'p \<Rightarrow> 'st \<Rightarrow> (string \<rightharpoonup> mat) \<Rightarrow> error + real \<times> 'st" where
  "dsm_loss_fn ext sde model train reduce_mean like_w eps s_zero rng params states batch =
     bind_err
       (dsm_per_example_losses ext sde model train reduce_mean like_w eps s_zero rng params states batch)
       (\<lambda>(losses, new_model_state).
          let loss = jnp_mean losses in Inr (loss, new_model_state))"

text \<open>
  The factory binds \<open>sde\<close> and \<open>reduce_op\<close> and returns the closure \<open>loss_fn\<close>. It has no
  statement that raises: its result is always the closure.
\<close>

definition get_dsm_loss_fn ::
  "('ts, 'dt, 'model, 'p, 'st) externals \<Rightarrow> ('ts, 'dt) sde_obj \<Rightarrow> 'model \<Rightarrow> bool \<Rightarrow> bool \<Rightarrow> bool \<Rightarrow>
   real \<Rightarrow> bool \<Rightarrow> error + (key \<Rightarrow> 'p \<Rightarrow> 'st \<Rightarrow> (string \<rightharpoonup> mat) \<Rightarrow> error + real \<times> 'st)" where
  "get_dsm_loss_fn ext sde model train reduce_mean like_w eps s_zero =
     Inr (dsm_loss_fn ext sde model train reduce_mean like_w eps s_zero)"

subsection \<open>get_ism_loss_fn\<close>

definition ism_per_example_losses ::
  "('ts, 'dt, 'model, 'p, 'st) externals \<Rightarrow> ('ts, 'dt) sde_obj \<Rightarrow> 'model \<Rightarrow> bool \<Rightarrow> bool \<Rightarrow> string \<Rightarrow>
   real \<Rightarrow> key \<Rightarrow> 'p \<Rightarrow> 'st \<Rightarrow> (string \<rightharpoonup> mat) \<Rightarrow> error + vec \<times> 'st" where
  "ism_per_example_losses ext sde model train like_w hutchinson_type eps rng params states batch =
     (let score_fn = get_score_fn ext sde model params states train in
      case batch ''data'' of
        None \<Rightarrow> Inl KeyError
      | Some x_0 \<Rightarrow>
         (let keys = ism_key_schedule rng;
              t = sample_t (uniform_bits ext) (time_key keys) sde eps x_0;
              x_t = s_marginal_sample sde (sample_key keys) x_0 t;
              (score, new_model_state) = score_fn x_t t (score_key keys);
              epsilon = div_noise ext (noise_key keys) (shape x_0) hutchinson_type;
              drift_fn = (\<lambda>x t. fst (score_fn x t (div_score_key keys)));
              div_fn = get_div_fn (jax_jvp ext) drift_fn hutchinson_type;
              div_score = div_fn x_t t epsilon;
              sq_norm_score = s_squared_norm sde score x_t
          in bind_err (vadd (map (\<lambda>s. (1 / 2) * s) sq_norm_score) div_score) (\<lambda>losses.
             bind_err
               (if like_w then
                  (let g2 = map (\<lambda>g. g ^ 2) (snd (s_coefficients sde (zeros_like x_0) t))
                   in vmul losses g2)
                else Inr losses)
               (\<lambda>losses. Inr (losses, new_model_state)))))"

definition ism_loss_fn ::
  "('ts, 'dt, 'model, 'p, 'st) externals \<Rightarrow> ('ts, 'dt) sde_obj \<Rightarrow> 'model \<Rightarrow> bool \<Rightarrow> bool \<Rightarrow> string \<Rightarrow>
   real \<Rightarrow> key \<Rightarrow> 'p \<Rightarrow> 'st \<Rightarrow> (string \<rightharpoonup> mat) \<Rightarrow> error + real \<times> 'st" where
  "ism_loss_fn ext sde model train like_w hutchinson_type eps rng params states batch =
     bind_err
       (ism_per_example_losses ext sde model train like_w hutchinson_type eps rng params states batch)
       (\<lambda>(losses, new_model_state).
          let loss = jnp_mean losses in Inr (loss, new_model_state))"

text \<open>The factory takes \<open>reduce_mean\<close> and does not use it.\<close>

definition get_ism_loss_fn ::
  "('ts, 'dt, 'model, 'p, 'st) externals \<Rightarrow> ('ts, 'dt) sde_obj \<Rightarrow> 'model \<Rightarrow> bool \<Rightarrow> bool \<Rightarrow> bool \<Rightarrow>
   string \<Rightarrow> real \<Rightarrow> error + (key \<Rightarrow> 'p \<Rightarrow> 'st \<Rightarrow> (string \<rightharpoonup> mat) \<Rightarrow> error + real \<times> 'st)" where
  "get_ism_loss_fn ext sde model train reduce_mean like_w hutchinson_type eps =
     Inr (ism_loss_fn ext sde model train like_w hutchinson_type eps)"

subsection \<open>get_moser_loss_fn\<close>

text \<open>
  The closure \<open>mu\<close>; \<open>step_rng\<close> is the value of the captured variable at the call, and
  \<open>div_fn\<close> the captured divergence function.
\<close>

definition moser_mu ::
  "base_dist \<Rightarrow> (mat \<Rightarrow> vec \<Rightarrow> mat \<Rightarrow> vec) \<Rightarrow> (key \<Rightarrow> nat list \<Rightarrow> string \<Rightarrow> mat) \<Rightarrow> string \<Rightarrow> real \<Rightarrow>
   key \<Rightarrow> mat \<Rightarrow> error + vec \<times> vec" where
  "moser_mu base div_fn noise hutchinson_type eps step_rng x =
     (let prob_base = map exp (log_prob base x);
          t = map (\<lambda>_. 0) x;
          epsilon = noise step_rng (shape x) hutchinson_type;
          div_drift = div_fn x t epsilon
      in bind_err (vsub prob_base div_drift) (\<lambda>mu.
         let mu_plus = map (\<lambda>m. max eps m) mu;
             mu_minus = map (\<lambda>m. eps - min eps m) mu
         in Inr (mu_plus, mu_minus)))"

definition moser_loss_fn ::
  "('ts, 'dt, 'model, 'p, 'st) externals \<Rightarrow> base_dist \<Rightarrow> 'model \<Rightarrow> real \<Rightarrow> real \<Rightarrow> nat \<Rightarrow> string \<Rightarrow>
   real \<Rightarrow> key \<Rightarrow> 'p \<Rightarrow> 'st \<Rightarrow> (string \<rightharpoonup> mat) \<Rightarrow> error + real \<times> 'st" where
  "moser_loss_fn ext base model alpha_m alpha_p K hutchinson_type eps rng params states batch =
     (let drift_fn = get_ode_drift_fn ext model params states in
      case batch ''data'' of
        None \<Rightarrow> Inl KeyError
      | Some x_0 \<Rightarrow>
         (let keys = moser_key_schedule rng;
              div_fn = get_div_fn (jax_jvp ext) drift_fn hutchinson_type;
              mu = moser_mu base div_fn (div_noise ext) hutchinson_type eps
          in bind_err (mu (data_noise_key keys) x_0) (\<lambda>(mu_plus, mu_minus_unused).
             let log_prob_data = jnp_mean (map ln mu_plus);
                 xs = sample base (base_sample_key keys) K;
                 prior_prob = map exp (log_prob base xs)
             in bind_err (mu (base_noise_key keys) xs) (\<lambda>(mu_plus_unused, mu_minus).
                bind_err (batch_mul_vec mu_minus (map (\<lambda>p. 1 / p) prior_prob)) (\<lambda>weighted.
                let volume_m = jnp_mean weighted;
                    penalty = alpha_m * volume_m;
                    loss = - log_prob_data + penalty
                in Inr (loss, states))))))"

definition get_moser_loss_fn ::
  "('ts, 'dt, 'model, 'p, 'st) externals \<Rightarrow> base_dist \<Rightarrow> 'model \<Rightarrow> real \<Rightarrow> real \<Rightarrow> nat \<Rightarrow> string \<Rightarrow>
   real \<Rightarrow> error + (key \<Rightarrow> 'p \<Rightarrow> 'st \<Rightarrow> (string \<rightharpoonup> mat) \<Rightarrow> error + real \<times> 'st)" where
  "get_moser_loss_fn ext base model alpha_m alpha_p K hutchinson_type eps =
     Inr (moser_loss_fn ext base model alpha_m alpha_p K hutchinson_type eps)"


section \<open>The time-reversal formula in the specification's words\<close>

text \<open>
  The specification gives the reverse drift with matrix algebra: the forward drift minus
  \<open>G \<cdot> G\<^sup>T \<cdot> score\<close>, a matrix product when the diffusion is matrix-valued and the product
  with the squared scalar otherwise. The definitions below are that formula, written with
  transpose, matrix product and matrix-vector product; they are compared with the \<open>einsum\<close>
  contractions of the code.
\<close>

definition spec_transpose :: "mat \<Rightarrow> mat" where
  "spec_transpose A = map (\<lambda>j. map (\<lambda>i. A ! i ! j) [0..<length A]) [0..<ncols A]"

definition spec_dot :: "vec \<Rightarrow> vec \<Rightarrow> real" where
  "spec_dot u v = sum_list (map2 (*) u v)"

definition spec_mat_mul :: "mat \<Rightarrow> mat \<Rightarrow> mat" where
  "spec_mat_mul A B = map (\<lambda>row. map (\<lambda>col. spec_dot row col) (spec_transpose B)) A"

definition spec_mat_vec :: "mat \<Rightarrow> vec \<Rightarrow> vec" where
  "spec_mat_vec A v = map (\<lambda>row. spec_dot row v) A"

definition spec_GGt_score :: "mat \<Rightarrow> vec \<Rightarrow> vec" where
  "spec_GGt_score G s = spec_mat_vec (spec_mat_mul G (spec_transpose G)) s"

fun spec_correction :: "diffusion \<Rightarrow> nat \<Rightarrow> vec \<Rightarrow> vec" where
  "spec_correction (MatrixDiffusion G) n s = spec_GGt_score (G ! n) s"
| "spec_correction (ScalarDiffusion D) n s = map (\<lambda>si. (D ! n * D ! n) * si) s"

definition spec_reverse_drift :: "mat \<Rightarrow> diffusion \<Rightarrow> mat \<Rightarrow> mat" where
  "spec_reverse_drift forward_drift G score =
     map (\<lambda>n. map2 (-) (forward_drift ! n) (spec_correction G n (score ! n)))
       [0..<length forward_drift]"


text \<open>
  Well-shaped arguments: a batch of \<open>N\<close> vectors of dimension \<open>d\<close>, and a diffusion
  coefficient of the kind that \<open>full_diffusion_matrix\<close> declares, with one entry per batch
  element (a matrix with \<open>d\<close> rows when matrix-valued).
\<close>

definition batch_shape :: "nat \<Rightarrow> nat \<Rightarrow> mat \<Rightarrow> bool" where
  "batch_shape N d x = (length x = N \<and> list_all (\<lambda>r. length r = d) x)"

fun diffusion_fits :: "bool \<Rightarrow> nat \<Rightarrow> nat \<Rightarrow> diffusion \<Rightarrow> bool" where
  "diffusion_fits True N d (MatrixDiffusion G) =
     (length G = N \<and> list_all (\<lambda>A. length A = d \<and> rect A) G)"
| "diffusion_fits False N d (ScalarDiffusion D) = (length D = N)"
| "diffusion_fits full N d G = False"


section \<open>Two sentences of the specification about the DSM loss, as they are written\<close>

text \<open>
  The per-example loss as the specification words it: the squared norm, in the metric of the
  manifold at \<open>x_t\<close>, of the difference of score and target, multiplied by the standard
  deviation (\<open>like_w = False\<close>) or by the squared diffusion coefficient (\<open>like_w = True\<close>).
  And the returned scalar as the specification words it: the batch mean of the per-example
  losses, or their half-sum when \<open>reduce_mean = False\<close>.
\<close>

definition spec_dsm_losses ::
  "('ts, 'dt) sde_obj \<Rightarrow> bool \<Rightarrow> vec \<Rightarrow> vec \<Rightarrow> mat \<Rightarrow> mat \<Rightarrow> mat \<Rightarrow> vec" where
  "spec_dsm_losses sde like_w std g score logp_grad x_t =
     map2 (\<lambda>squared_norm weight. squared_norm * weight)
       (s_squared_norm sde (map2 (map2 (-)) score logp_grad) x_t)
       (if like_w then map (\<lambda>g. g ^ 2) g else std)"

definition spec_dsm_scalar :: "bool \<Rightarrow> vec \<Rightarrow> real" where
  "spec_dsm_scalar reduce_mean losses =
     (if reduce_mean then sum_list losses / real (length losses) else (1 / 2) * sum_list losses)"


section \<open>Example objects\<close>

text \<open>
  A flat manifold without a closed-form random walk, the same manifold with one, a Brownian
  SDE on \<open>[0, 1]\<close> with \<open>beta_0 = 1\<close> and \<open>beta_f = 4\<close>, a score function, and an SDE of
  another class with a matrix-valued diffusion.
\<close>

definition flat_manifold :: manifold where
  "flat_manifold =
     \<lparr> random_walk = (\<lambda>rng x t. None),
       log_heat_kernel = (\<lambda>x0 x s. [0]),
       random_uniform = (\<lambda>rng n. replicate n [0, 0]),
       log_volume = 0,
       squared_norm = (\<lambda>u x. map (\<lambda>v. \<Sum>a\<leftarrow>v. a * a) u) \<rparr>"

definition walk_manifold :: manifold where
  "walk_manifold = flat_manifold \<lparr> random_walk := (\<lambda>rng x t. Some x) \<rparr>"

definition example_brownian :: brownian where
  "example_brownian = Brownian_init flat_manifold 1 None (Some 1) (Some 4)"

definition id_score :: "mat \<Rightarrow> vec \<Rightarrow> mat" where
  "id_score x t = x"

definition matrix_sde :: other_sde where
  "matrix_sde =
     \<lparr> o_t0 = 0, o_tf = 1, o_manifold = flat_manifold, o_full_diffusion_matrix = True,
       o_coefficients = (\<lambda>x t. (zeros_like x, MatrixDiffusion (map (\<lambda>_. [[1, 2], [0, 1]]) t))) \<rparr>"


definition no_sampler :: "sampler_call \<Rightarrow> mat \<times> unit" where
  "no_sampler call = (case call of SamplerCall s n p c rng x t \<Rightarrow> (x, ()))"


text \<open>
  For the loss functions: an SDE on \<open>[0, 1]\<close> that samples \<open>x_t = x_0\<close>, has target score 0,
  standard deviation \<open>1 / 2\<close> and diffusion coefficient 1, and whose metric is the Euclidean
  one; external functions whose random bits are all 0, whose score is the constant 2 and whose
  noise is the constant 1; the same with the linear score \<open>s(x) = x\<close>, whose derivative along
  \<open>v\<close> is \<open>v\<close>; three batches; a base distribution with density 1 and a divergence function
  with the constant value 3.
\<close>

definition flat_sde :: "(real, real) sde_obj" where
  "flat_sde =
     \<lparr> s_t0 = 0, s_tf = 1,
       s_marginal_sample = (\<lambda>rng x t. x),
       s_marginal_sample_hist = (\<lambda>rng x t. (x, [x, x], [0, 1])),
       s_grad_marginal_log_prob = (\<lambda>x_0 x_t t. (map (\<lambda>_. 0) t, zeros_like x_t)),
       s_varhadan_exp = (\<lambda>x_s x_t t_s t_t. (zeros_like x_t, t_t - t_s)),
       s_marginal_prob = (\<lambda>x t. (zeros_like x, map (\<lambda>_. 1 / 2) t)),
       s_coefficients = (\<lambda>x t. (zeros_like x, map (\<lambda>_. 1) t)),
       s_squared_norm = (\<lambda>u x. map (\<lambda>v. \<Sum>a\<leftarrow>v. a * a) u) \<rparr>"

definition example_ext :: "(real, real, unit, unit, unit) externals" where
  "example_ext =
     \<lparr> uniform_bits = (\<lambda>rng i. 0),
       get_score_fn = (\<lambda>sde model params states train x t rng. (map (map (\<lambda>_. 2)) x, states)),
       get_ode_drift_fn = (\<lambda>model params states x t. zeros_like x),
       div_noise = (\<lambda>rng shp hutchinson_type. replicate (hd shp) (replicate (hd (tl shp)) 1)),
       jax_jvp = (\<lambda>f x v. zeros_like v) \<rparr>"

definition linear_ext :: "(real, real, unit, unit, unit) externals" where
  "linear_ext =
     example_ext \<lparr> get_score_fn := (\<lambda>sde model params states train x t rng. (x, states)),
                   jax_jvp := (\<lambda>f x v. f v) \<rparr>"

definition one_point :: "string \<rightharpoonup> mat" where
  "one_point = [''data'' \<mapsto> [[0]]]"

definition three_points :: "string \<rightharpoonup> mat" where
  "three_points = [''data'' \<mapsto> [[0], [0], [0]]]"

definition plane_point :: "string \<rightharpoonup> mat" where
  "plane_point = [''data'' \<mapsto> [[1, 2]]]"

definition example_base :: base_dist where
  "example_base = \<lparr> log_prob = (\<lambda>x. map (\<lambda>_. 0) x), sample = (\<lambda>rng K. replicate K [0, 0]) \<rparr>"

definition example_div_fn :: "mat \<Rightarrow> vec \<Rightarrow> mat \<Rightarrow> vec" where
  "example_div_fn x t epsilon = map (\<lambda>_. 3) x"
















section \<open>Array lemmas\<close>

lemma bdim_same: "bdim n n = Some n"
  by (simp add: bdim_def)

lemma stretch_same: "length xs = n \<Longrightarrow> stretch n xs = xs"
  by (simp add: stretch_def)

lemma collect_map_Inr: "collect (map (\<lambda>x. Inr (f x)) xs) = Inr (map f xs)"
  by (induction xs) auto

lemma collect_Inr_map: "collect (map Inr xs) = Inr xs"
  using collect_map_Inr [of "\<lambda>x. x" xs] by simp

lemma collect_map2_Inr: "collect (map2 (\<lambda>a b. Inr (f a b)) xs ys) = Inr (map2 f xs ys)"
  using collect_map_Inr [of "\<lambda>(a, b). f a b" "zip xs ys"] by (simp add: case_prod_unfold)

lemma vsub_same: "length u = length v \<Longrightarrow> vsub u v = Inr (map2 (-) u v)"
  by (simp add: vsub_def bcast2_def bdim_same stretch_same collect_map2_Inr)

lemma vmul_same: "length u = length v \<Longrightarrow> vmul u v = Inr (map2 (*) u v)"
  by (simp add: vmul_def bcast2_def bdim_same stretch_same collect_map2_Inr)

lemma vadd_same: "length u = length v \<Longrightarrow> vadd u v = Inr (map2 (+) u v)"
  by (simp add: vadd_def bcast2_def bdim_same stretch_same collect_map2_Inr)

lemma msub_same:
  assumes "length A = length B" and "\<And>n. n < length A \<Longrightarrow> length (A ! n) = length (B ! n)"
  shows "msub A B = Inr (map (\<lambda>n. map2 (-) (A ! n) (B ! n)) [0..<length A])"
proof -
  have "map2 vsub A B = map Inr (map (\<lambda>n. map2 (-) (A ! n) (B ! n)) [0..<length A])"
    using assms by (intro nth_equalityI) (simp_all add: vsub_same)
  with assms(1) show ?thesis
    by (simp add: msub_def bcast2_def bdim_same stretch_same collect_Inr_map del: map_map)
qed

lemma map2_nth_upt:
  "length xs = N \<Longrightarrow> length ys = N \<Longrightarrow> map2 f xs ys = map (\<lambda>n. f (xs ! n) (ys ! n)) [0..<N]"
  by (intro nth_equalityI) simp_all

lemma vmul_singleton: "vmul [c] v = Inr (map (\<lambda>s. c * s) v)"
proof (cases "length v = 1")
  case True
  then obtain a where "v = [a]" by (cases v) auto
  then show ?thesis by (simp add: vmul_def bcast2_def bdim_def stretch_def)
next
  case False
  have "map2 (\<lambda>a b. Inr (a * b) :: error + real) (replicate (length v) c) v
        = map (\<lambda>s. Inr (c * s)) v"
    by (intro nth_equalityI) simp_all
  with False show ?thesis
    by (simp add: vmul_def bcast2_def bdim_def stretch_def collect_map_Inr)
qed

lemma batch_mul_std:
  assumes "length sd = N" and "length a = N"
  shows "batch_mul (expand_dims_last sd) a = Inr (map (\<lambda>n. map (\<lambda>s. sd ! n * s) (a ! n)) [0..<N])"
proof -
  have "map2 vmul (expand_dims_last sd) a
        = map (\<lambda>n. Inr (map (\<lambda>s. sd ! n * s) (a ! n))) [0..<N]"
    using assms by (intro nth_equalityI) (simp_all add: expand_dims_last_def vmul_singleton)
  then show ?thesis
    using assms by (simp add: batch_mul_def expand_dims_last_def collect_map_Inr)
qed

lemma einsum_scalar_same:
  "length D = N \<Longrightarrow> length S = N \<Longrightarrow>
   einsum_scalar D D S = Inr (map (\<lambda>b. map (\<lambda>si. D ! b * D ! b * si) (S ! b)) [0..<N])"
  by (simp add: einsum_scalar_def bdim_same stretch_same)

lemma rect_nth: "rect A \<Longrightarrow> i < length A \<Longrightarrow> length (A ! i) = ncols A"
  by (simp add: rect_def list_all_length)

lemma spec_dot_sum:
  "length u = length v \<Longrightarrow> spec_dot u v = (\<Sum>i<length u. u ! i * v ! i)"
  by (simp add: spec_dot_def sum_list_sum_nth atLeast0LessThan)

lemma sum_list_upt: "(\<Sum>i\<leftarrow>[0..<n]. f i) = (\<Sum>i<n. f i)"
  by (simp add: interv_sum_list_conv_sum_set_nat atLeast0LessThan)

lemma transpose_transpose:
  assumes "rect A" and "0 < ncols A"
  shows "spec_transpose (spec_transpose A) = A"
proof -
  have lenT: "length (spec_transpose A) = ncols A" by (simp add: spec_transpose_def)
  have "A \<noteq> []" using assms(2) by (auto simp: ncols_def)
  have ncT: "ncols (spec_transpose A) = length A"
    using assms(2) by (simp add: spec_transpose_def ncols_def upt_conv_Cons)
  show ?thesis
    unfolding spec_transpose_def [of "spec_transpose A"] lenT ncT
    by (intro nth_equalityI) (simp_all add: spec_transpose_def rect_nth [OF assms(1)])
qed

lemma einsum_is_GGt:
  assumes r: "rect A" and l: "length A = length s"
  shows "einsum_ij_kj_k A A s = Inr (spec_GGt_score A s)"
proof (cases "ncols A = 0")
  case True
  then have "spec_transpose A = []" by (simp add: spec_transpose_def)
  then have "spec_GGt_score A s = map (\<lambda>i. 0) [0..<length A]"
    by (intro nth_equalityI)
       (simp_all add: spec_GGt_score_def spec_mat_vec_def spec_mat_mul_def spec_dot_def
          spec_transpose_def [of "[]"] ncols_def)
  then show ?thesis using True r l
    by (simp add: einsum_ij_kj_k_def)
next
  case False
  then have tt: "spec_transpose (spec_transpose A) = A"
    using r by (simp add: transpose_transpose)
  have row: "spec_dot (A ! i) (A ! k) = (\<Sum>j<ncols A. A ! i ! j * A ! k ! j)"
    if "i < length A" "k < length A" for i k
    using that by (simp add: spec_dot_sum rect_nth [OF r])
  have "spec_GGt_score A s ! i =
        (\<Sum>j\<leftarrow>[0..<ncols A]. \<Sum>k\<leftarrow>[0..<length s]. A ! i ! j * A ! k ! j * s ! k)"
    if i: "i < length A" for i
  proof -
    have "spec_GGt_score A s ! i = spec_dot (map (\<lambda>col. spec_dot (A ! i) col) A) s"
      using i by (simp add: spec_GGt_score_def spec_mat_vec_def spec_mat_mul_def tt)
    also have "\<dots> = (\<Sum>k<length A. spec_dot (A ! i) (A ! k) * s ! k)"
      using l by (simp add: spec_dot_sum)
    also have "\<dots> = (\<Sum>k<length A. \<Sum>j<ncols A. A ! i ! j * A ! k ! j * s ! k)"
      using i by (simp add: row sum_distrib_right)
    also have "\<dots> = (\<Sum>j<ncols A. \<Sum>k<length A. A ! i ! j * A ! k ! j * s ! k)"
      by (rule sum.swap)
    finally show ?thesis by (simp add: sum_list_upt l)
  qed
  then have "map (\<lambda>i. \<Sum>j\<leftarrow>[0..<ncols A]. \<Sum>k\<leftarrow>[0..<length s]. A ! i ! j * A ! k ! j * s ! k)
               [0..<length A] = spec_GGt_score A s"
    by (intro nth_equalityI)
       (simp_all add: spec_GGt_score_def spec_mat_vec_def spec_mat_mul_def)
  then show ?thesis using r l by (simp add: einsum_ij_kj_k_def)
qed

lemma einsum_matrix_same:
  assumes "length G = N" and "length S = N"
    and "\<And>n. n < N \<Longrightarrow> rect (G ! n) \<and> length (G ! n) = length (S ! n)"
  shows "einsum_matrix G G S = Inr (map (\<lambda>n. spec_GGt_score (G ! n) (S ! n)) [0..<N])"
proof -
  have eq: "map (\<lambda>b. einsum_ij_kj_k (G ! b) (G ! b) (S ! b)) [0..<N]
        = map (\<lambda>n. Inr (spec_GGt_score (G ! n) (S ! n))) [0..<N]"
    using assms(3) by (simp add: einsum_is_GGt)
  have "einsum_matrix G G S = collect (map (\<lambda>b. einsum_ij_kj_k (G ! b) (G ! b) (S ! b)) [0..<N])"
    using assms(1,2) by (simp add: einsum_matrix_def bdim_same stretch_same)
  also have "\<dots> = Inr (map (\<lambda>n. spec_GGt_score (G ! n) (S ! n)) [0..<N])"
    unfolding eq by (rule collect_map_Inr)
  finally show ?thesis .
qed

lemma batch_shape_nth: "batch_shape N d x \<Longrightarrow> n < N \<Longrightarrow> length (x ! n) = d"
  by (simp add: batch_shape_def list_all_length)

lemma sum_list_scaled_squares:
  "length u = length w \<Longrightarrow>
   sum_list (map (\<lambda>v. v ^ 2) (map2 (-) (map (\<lambda>s. c * s) u) (map (\<lambda>s. c * s) w)))
     = (c :: real) ^ 2 * sum_list (map2 (\<lambda>s l. (s - l) ^ 2) u w)"
proof (induction u w rule: list_induct2)
  case Nil
  then show ?case by simp
next
  case (Cons x xs y ys)
  have "(c * x - c * y) ^ 2 = c ^ 2 * (x - y) ^ 2"
    by (simp add: power2_eq_square algebra_simps)
  with Cons show ?case by (simp add: algebra_simps)
qed

lemma reduce_op_scaled:
  assumes "length u = length w"
  shows "reduce_op rm (map (\<lambda>v. v ^ 2) (map2 (-) (map (\<lambda>s. c * s) u) (map (\<lambda>s. c * s) w)))
         = c ^ 2 * reduce_op rm (map2 (\<lambda>s l. (s - l) ^ 2) u w)"
  unfolding reduce_op_def jnp_mean_def sum_list_scaled_squares [OF assms]
  using assms by simp

lemma squares_of_difference:
  "map (\<lambda>v. v ^ 2) (map2 (-) u w) = map2 (\<lambda>s l. (s - l) ^ 2) u w"
  by (simp add: case_prod_unfold)

lemma unit_float_range: "0 \<le> unit_float b \<and> unit_float b < 1"
proof -
  have "b div 2 ^ 9 mod 2 ^ 23 < (2 :: nat) ^ 23" by simp
  then have "real (b div 2 ^ 9 mod 2 ^ 23) < 2 ^ 23"
    by (metis of_nat_less_iff of_nat_numeral of_nat_power)
  then show ?thesis by (simp add: unit_float_def)
qed

lemma jax_uniform_range:
  assumes "minval < maxval" and "\<tau> \<in> set (jax_uniform bits k n minval maxval)"
  shows "minval \<le> \<tau> \<and> \<tau> < maxval"
proof -
  from assms(2) obtain i where \<tau>: "\<tau> = max minval (unit_float (bits k i) * (maxval - minval) + minval)"
    by (auto simp: jax_uniform_def)
  let ?u = "unit_float (bits k i)"
  have u: "0 \<le> ?u" "?u < 1" using unit_float_range by simp_all
  have "?u * (maxval - minval) < 1 * (maxval - minval)"
    using u(2) assms(1) by (intro mult_strict_right_mono) simp_all
  then have "?u * (maxval - minval) + minval < maxval" by simp
  with \<tau> assms(1) show ?thesis by simp
qed


subsection \<open>The weighting of the DSM loss\<close>

lemma reshape_rows_nonempty: "length rows = N \<Longrightarrow> 0 < N \<Longrightarrow> reshape_rows rows = Inr rows"
  by (auto simp: reshape_rows_def)

lemma dsm_weighted_losses_value:
  assumes score: "batch_shape N d score" and target: "batch_shape N d logp_grad"
    and sd: "length sd = N" and batch: "0 < N"
    and g: "like_w \<Longrightarrow> length (snd (s_coefficients sde (zeros_like x_0) t)) = N"
  shows "dsm_weighted_losses sde reduce_mean like_w x_0 t (expand_dims_last sd) score logp_grad
         = Inr (map (\<lambda>n. (if like_w then (snd (s_coefficients sde (zeros_like x_0) t) ! n) ^ 2
                               else (sd ! n) ^ 2)
                          * reduce_op reduce_mean
                              (map2 (\<lambda>s l. (s - l) ^ 2) (score ! n) (logp_grad ! n)))
                  [0..<N])"
proof (cases like_w)
  case True
  have lens: "length score = N" "length logp_grad = N"
    using score target by (simp_all add: batch_shape_def)
  have sub: "msub score logp_grad = Inr (map (\<lambda>n. map2 (-) (score ! n) (logp_grad ! n)) [0..<N])"
    using lens batch_shape_nth [OF score] batch_shape_nth [OF target]
    by (subst msub_same) simp_all
  have mul: "vmul (map (reduce_op reduce_mean)
                 (jnp_square (map (\<lambda>n. map2 (-) (score ! n) (logp_grad ! n)) [0..<N])))
               (map (\<lambda>g. g ^ 2) (snd (s_coefficients sde (zeros_like x_0) t)))
             = Inr (map (\<lambda>n. (snd (s_coefficients sde (zeros_like x_0) t) ! n) ^ 2
                          * reduce_op reduce_mean
                              (map2 (\<lambda>s l. (s - l) ^ 2) (score ! n) (logp_grad ! n)))
                  [0..<N])"
  proof -
    have "map (reduce_op reduce_mean)
            (jnp_square (map (\<lambda>n. map2 (-) (score ! n) (logp_grad ! n)) [0..<N]))
          = map (\<lambda>n. reduce_op reduce_mean
                        (map2 (\<lambda>s l. (s - l) ^ 2) (score ! n) (logp_grad ! n))) [0..<N]"
      by (intro nth_equalityI) (simp_all add: jnp_square_def squares_of_difference del: map_map)
    then show ?thesis
      using g [OF True] by (simp add: vmul_same map2_nth_upt mult.commute)
  qed
  have rows: "reshape_rows (jnp_square (map (\<lambda>n. map2 (-) (score ! n) (logp_grad ! n)) [0..<N]))
              = Inr (jnp_square (map (\<lambda>n. map2 (-) (score ! n) (logp_grad ! n)) [0..<N]))"
    using batch by (intro reshape_rows_nonempty [of _ N]) (simp_all add: jnp_square_def)
  show ?thesis
    using True unfolding dsm_weighted_losses_def
    by (simp only: sub rows mul bind_err_def sum.case Let_def simp_thms if_True if_False)
next
  case False
  have lens: "length score = N" "length logp_grad = N"
    using score target by (simp_all add: batch_shape_def)
  have m1: "batch_mul (expand_dims_last sd) score
            = Inr (map (\<lambda>n. map (\<lambda>s. sd ! n * s) (score ! n)) [0..<N])"
    using sd lens by (simp add: batch_mul_std)
  have m2: "batch_mul (expand_dims_last sd) logp_grad
            = Inr (map (\<lambda>n. map (\<lambda>s. sd ! n * s) (logp_grad ! n)) [0..<N])"
    using sd lens by (simp add: batch_mul_std)
  have sub: "msub (map (\<lambda>n. map (\<lambda>s. sd ! n * s) (score ! n)) [0..<N])
                  (map (\<lambda>n. map (\<lambda>s. sd ! n * s) (logp_grad ! n)) [0..<N])
             = Inr (map (\<lambda>n. map2 (-) (map (\<lambda>s. sd ! n * s) (score ! n))
                                      (map (\<lambda>s. sd ! n * s) (logp_grad ! n))) [0..<N])"
    using batch_shape_nth [OF score] batch_shape_nth [OF target]
    by (subst msub_same) simp_all
  have red: "map (reduce_op reduce_mean)
               (jnp_square (map (\<lambda>n. map2 (-) (map (\<lambda>s. sd ! n * s) (score ! n))
                                      (map (\<lambda>s. sd ! n * s) (logp_grad ! n))) [0..<N]))
             = map (\<lambda>n. (sd ! n) ^ 2 * reduce_op reduce_mean
                              (map2 (\<lambda>s l. (s - l) ^ 2) (score ! n) (logp_grad ! n))) [0..<N]"
    using batch_shape_nth [OF score] batch_shape_nth [OF target]
    by (intro nth_equalityI) (simp_all add: jnp_square_def reduce_op_scaled del: map_map)
  have rows: "reshape_rows (jnp_square (map (\<lambda>n. map2 (-) (map (\<lambda>s. sd ! n * s) (score ! n))
                                      (map (\<lambda>s. sd ! n * s) (logp_grad ! n))) [0..<N]))
              = Inr (jnp_square (map (\<lambda>n. map2 (-) (map (\<lambda>s. sd ! n * s) (score ! n))
                                      (map (\<lambda>s. sd ! n * s) (logp_grad ! n))) [0..<N]))"
    using batch by (intro reshape_rows_nonempty [of _ N]) (simp_all add: jnp_square_def)
  show ?thesis
    using False unfolding dsm_weighted_losses_def
    by (simp only: m1 m2 sub rows red bind_err_def sum.case Let_def if_True if_False simp_thms)
qed


subsection \<open>What the parts of the loss functions read of their arguments\<close>






subsection \<open>Values at the example objects\<close>

lemma example_scalar_drift: "spec_reverse_drift [[0, 0]] (ScalarDiffusion [2]) [[1, 2]] = [[-4, -8]]"
  by (simp add: spec_reverse_drift_def)

lemma example_matrix_drift: "spec_reverse_drift [[0, 0]] (MatrixDiffusion [[[1, 2], [0, 1]]]) [[1, 1]] = [[-7, -3]]"
  by (simp add: spec_reverse_drift_def spec_GGt_score_def spec_mat_vec_def spec_mat_mul_def
    spec_transpose_def spec_dot_def ncols_def upt_rec [of 0] upt_rec [of 1] upt_rec[of 2] upt_rec [of "Suc 0"] )

lemma upt_3: "[0..<3] = [0, 1, 2]"
  by (simp add: upt_rec)

lemma example_times: "sample_t (uniform_bits example_ext) k flat_sde (1 / 1000) [[0], [0], [0]]
    = [1 / 1000, 1 / 1000, 1 / 1000]"
  by (simp add: sample_t_def jax_uniform_def example_ext_def flat_sde_def unit_float_def upt_3)

lemmas example_eval =
  dsm_per_example_losses_def one_point_def plane_point_def dsm_key_schedule_def random_split_def
  sample_t_def jax_uniform_def example_ext_def flat_sde_def unit_float_def
  expand_dims_last_def zeros_like_def bind_err_def dsm_weighted_losses_def batch_mul_def
  vmul_def msub_def vsub_def bcast2_def bdim_def stretch_def jnp_square_def reduce_op_def
  reshape_rows_def jnp_mean_def power2_eq_square Let_def py_index_def

lemma three_losses:
  "dsm_per_example_losses example_ext flat_sde () True False True (1 / 1000) True
      (PRNGKey 0) () () three_points = Inr ([2, 2, 2], ())"
  by (simp add: dsm_per_example_losses_def three_points_def dsm_key_schedule_def random_split_def
      sample_t_def jax_uniform_def unit_float_def upt_3 Let_def
      example_ext_def flat_sde_def
      expand_dims_last_def zeros_like_def bind_err_def dsm_weighted_losses_def batch_mul_def
      vmul_def msub_def vsub_def bcast2_def bdim_def stretch_def jnp_square_def reduce_op_def
      reshape_rows_def jnp_mean_def power2_eq_square)




section \<open>Theorems about sde.py\<close>


text \<open>
  C1. The reverse SDE built from a forward SDE \<open>S\<close> and a score function has the time
  interval of \<open>S\<close> with the endpoints swapped, and its \<open>coefficients\<close> return the forward
  diffusion coefficient unchanged together with the drift \<open>forward_drift - G G\<^sup>T score\<close>: the
  matrix product when \<open>S.full_diffusion_matrix\<close> holds, the product with the squared scalar
  otherwise. The arrays are well shaped: \<open>N\<close> batch elements of dimension \<open>d\<close>.
\<close>

theorem reverse_coefficients:
  assumes fwd: "coefficients S x t = Inr (forward_drift, G)"
    and drift: "batch_shape N d forward_drift"
    and score: "batch_shape N d (score_fn x t)"
    and diff: "diffusion_fits (full_diffusion_matrix S) N d G"
  shows "coefficients (ReverseBrownian_init S score_fn) x t
           = Inr (spec_reverse_drift forward_drift G (score_fn x t), G)
         \<and> (full_diffusion_matrix S \<longleftrightarrow> (\<exists>g. G = MatrixDiffusion g))
         \<and> sde_t0 (ReverseBrownian_init S score_fn) = sde_tf S
         \<and> sde_tf (ReverseBrownian_init S score_fn) = sde_t0 S"
proof -
  have lenf: "length forward_drift = N" and lens: "length (score_fn x t) = N"
    using drift score by (simp_all add: batch_shape_def)
  have times: "sde_t0 (ReverseBrownian_init S score_fn) = sde_tf S"
      "sde_tf (ReverseBrownian_init S score_fn) = sde_t0 S"
    by (simp_all add: ReverseBrownian_init_def Brownian_init_def)
  show ?thesis
  proof (cases G)
    case (ScalarDiffusion D)
    with diff have full: "\<not> full_diffusion_matrix S" and lenD: "length D = N"
      by (cases "full_diffusion_matrix S"; simp)+
    have ein: "einsum_scalar D D (score_fn x t)
               = Inr (map (\<lambda>b. map (\<lambda>si. D ! b * D ! b * si) (score_fn x t ! b)) [0..<N])"
      using lenD lens by (rule einsum_scalar_same)
    have sub: "msub forward_drift (map (\<lambda>b. map (\<lambda>si. D ! b * D ! b * si) (score_fn x t ! b)) [0..<N])
               = Inr (spec_reverse_drift forward_drift G (score_fn x t))"
      using lenf batch_shape_nth [OF drift] batch_shape_nth [OF score]
      by (subst msub_same) (simp_all add: spec_reverse_drift_def ScalarDiffusion)
    show ?thesis
      using fwd full ein sub times
      by (simp add: ReverseBrownian_init_def bind_err_def ScalarDiffusion)
  next
    case (MatrixDiffusion g)
    with diff have full: "full_diffusion_matrix S" and leng: "length g = N"
      and each: "list_all (\<lambda>A. length A = d \<and> rect A) g"
      by (cases "full_diffusion_matrix S"; simp)+
    have gn: "rect (g ! n) \<and> length (g ! n) = d" if "n < N" for n
      using each leng that by (simp add: list_all_length)
    have ein: "einsum_matrix g g (score_fn x t)
               = Inr (map (\<lambda>n. spec_GGt_score (g ! n) (score_fn x t ! n)) [0..<N])"
      using leng lens gn batch_shape_nth [OF score]
      by (intro einsum_matrix_same) simp_all
    have lenc: "length (spec_GGt_score (g ! n) (score_fn x t ! n)) = d" if "n < N" for n
      using gn [OF that] by (simp add: spec_GGt_score_def spec_mat_vec_def spec_mat_mul_def)
    have sub: "msub forward_drift (map (\<lambda>n. spec_GGt_score (g ! n) (score_fn x t ! n)) [0..<N])
               = Inr (spec_reverse_drift forward_drift G (score_fn x t))"
      using lenf batch_shape_nth [OF drift] lenc
      by (subst msub_same) (simp_all add: spec_reverse_drift_def MatrixDiffusion)
    show ?thesis
      using fwd full ein sub times
      by (simp add: ReverseBrownian_init_def bind_err_def MatrixDiffusion)
  qed
qed

theorem reverse_coefficients_witness:
  "coefficients (ReverseBrownian_init (Brownian example_brownian) id_score) [[1, 2]] [1]
     = Inr ([[-4, -8]], ScalarDiffusion [2])
   \<and> coefficients (ReverseBrownian_init (OtherSDE matrix_sde) id_score) [[1, 1]] [0]
     = Inr ([[-7, -3]], MatrixDiffusion [[[1, 2], [0, 1]]])"
proof -
  have a: "coefficients (Brownian example_brownian) [[1, 2]] [1]
         = Inr ([[0, 0]], ScalarDiffusion [2])"
    by (simp add: Brownian_coefficients_def example_brownian_def Brownian_init_def beta_t_def
        zeros_like_def)
  have b: "coefficients (OtherSDE matrix_sde) [[1, 1]] [0]
         = Inr ([[0, 0]], MatrixDiffusion [[[1, 2], [0, 1]]])"
    by (simp add: matrix_sde_def zeros_like_def)
  have "coefficients (ReverseBrownian_init (Brownian example_brownian) id_score) [[1, 2]] [1]
     = Inr (spec_reverse_drift [[0, 0]] (ScalarDiffusion [2]) (id_score [[1, 2]] [1]), ScalarDiffusion [2])"
    using reverse_coefficients [OF a, of 1 2 id_score]
    by (simp add: batch_shape_def id_score_def SDE_full_diffusion_matrix_def)
  moreover have "coefficients (ReverseBrownian_init (OtherSDE matrix_sde) id_score) [[1, 1]] [0]
     = Inr (spec_reverse_drift [[0, 0]] (MatrixDiffusion [[[1, 2], [0, 1]]]) (id_score [[1, 1]] [0]),
            MatrixDiffusion [[[1, 2], [0, 1]]])"
    using reverse_coefficients [OF b, of 1 2 id_score]
    by (simp add: batch_shape_def id_score_def matrix_sde_def rect_def ncols_def)
  ultimately show ?thesis
    by (simp add: id_score_def example_scalar_drift example_matrix_drift)
qed


text \<open>
  C2. Reversing twice gives the original object back: when \<open>X.reverse(score_fn)\<close> returns the
  reverse SDE \<open>R\<close>, then \<open>R.reverse()\<close> returns \<open>X\<close> itself, so the coefficients (and with
  them the drift) of the doubly reversed SDE are those of \<open>X\<close> at every \<open>(x, t)\<close>.
\<close>

theorem reverse_twice:
  assumes "reverse X (Some score_fn) = Inr R"
  shows "reverse R None = Inr X \<and>
         bind_err (reverse R None) (\<lambda>X'. coefficients X' x t) = coefficients X x t"
proof (cases X)
  case (Brownian a)
  with assms have "R = ReverseBrownian_init (Brownian a) score_fn" by auto
  then show ?thesis using Brownian by (simp add: ReverseBrownian_init_def bind_err_def)
qed (use assms in auto)

theorem reverse_twice_witness:
  "reverse (Brownian example_brownian) (Some id_score)
     = Inr (ReverseBrownian_init (Brownian example_brownian) id_score) \<and>
   reverse (ReverseBrownian_init (Brownian example_brownian) id_score) None
     = Inr (Brownian example_brownian)"
  using reverse_twice [of "Brownian example_brownian" id_score
      "ReverseBrownian_init (Brownian example_brownian) id_score"]
  by simp


text \<open>
  C8. \<open>marginal_sample\<close> first asks the manifold for a closed-form random-walk sample and
  returns it when there is one, without calling the sampler. Exactly when the manifold returns
  \<open>None\<close> it calls the predictor-corrector sampler once, on the SDE itself with 100 steps,
  the Euler-Maruyama manifold predictor, no corrector and final time \<open>t\<close>, and returns the
  sampler's point. Both cases return a value: the function has no error result.
\<close>

theorem marginal_sample_fallback:
  "(random_walk (sde_manifold self) rng x t = Some p \<longrightarrow>
      marginal_sample pc self rng x t = (p, [])) \<and>
   (random_walk (sde_manifold self) rng x t = None \<longrightarrow>
      marginal_sample pc self rng x t =
        (fst (pc (SamplerCall self 100 ''EulerMaruyamaManifoldPredictor'' None rng x t)),
         [SamplerCall self 100 ''EulerMaruyamaManifoldPredictor'' None rng x t])) \<and>
   (snd (marginal_sample pc self rng x t) \<noteq> [] \<longleftrightarrow>
      random_walk (sde_manifold self) rng x t = None)"
  by (simp add: marginal_sample_def Let_def split: option.splits)


theorem marginal_sample_fallback_witness:
  "marginal_sample no_sampler (Brownian (example_brownian \<lparr> manifold := walk_manifold \<rparr>))
     (PRNGKey 0) [[1, 2]] [1] = ([[1, 2]], [])
   \<and> marginal_sample no_sampler (Brownian example_brownian) (PRNGKey 0) [[1, 2]] [1]
     = ([[1, 2]],
        [SamplerCall (Brownian example_brownian) 100 ''EulerMaruyamaManifoldPredictor'' None
           (PRNGKey 0) [[1, 2]] [1]])"
  using marginal_sample_fallback [of "Brownian (example_brownian \<lparr> manifold := walk_manifold \<rparr>)"
      "PRNGKey 0" "[[1, 2]]" "[1]" "[[1, 2]]" no_sampler]
    marginal_sample_fallback [of "Brownian example_brownian"
      "PRNGKey 0" "[[1, 2]]" "[1]" "[[1, 2]]" no_sampler]
  by (simp add: example_brownian_def Brownian_init_def walk_manifold_def flat_manifold_def
      no_sampler_def)


text \<open>
  C10. The reverse of a forward Brownian SDE \<open>fwd\<close> with any schedule is constructed with the
  default schedule \<open>beta_0 = 0.1\<close>, \<open>beta_f = 20\<close> on the swapped interval. Its inherited
  \<open>beta_t\<close>, \<open>marginal_prob\<close> and \<open>marginal_log_prob\<close> compute with these defaults, whatever
  the schedule of \<open>fwd\<close> is, while the diffusion that its \<open>coefficients\<close> return is the one of
  \<open>fwd\<close>, computed from the schedule of \<open>fwd\<close>.
\<close>

theorem reverse_default_schedule:
  "\<exists>a. reverse (Brownian fwd) (Some score_fn) = Inr (ReverseBrownian a (Brownian fwd) score_fn)
     \<and> beta_0 a = 1 / 10 \<and> beta_f a = 20 \<and> t0 a = tf fwd \<and> tf a = t0 fwd
     \<and> beta_t a t = 1 / 10 + (t - tf fwd) / (t0 fwd - tf fwd) * (20 - 1 / 10)
     \<and> marginal_prob a x ts =
         (zeros_like x,
          map (\<lambda>t. sqrt (1 - exp (2 * (- (1 / 4) * t ^ 2 * (20 - 1 / 10) - (1 / 2) * t * (1 / 10))))) ts)
     \<and> marginal_log_prob a x0 x1 t =
         reshape_scalar (log_heat_kernel (manifold fwd) x0 x1
           (2 * ((1 / 4) * t ^ 2 * (20 - 1 / 10) + (1 / 2) * t * (1 / 10))))
     \<and> (\<forall>reverse_drift G.
          coefficients (ReverseBrownian a (Brownian fwd) score_fn) x ts = Inr (reverse_drift, G) \<longrightarrow>
          G = ScalarDiffusion
                (map (\<lambda>t. sqrt (beta_0 fwd + (t - t0 fwd) / (tf fwd - t0 fwd) * (beta_f fwd - beta_0 fwd))) ts))"
proof -
  let ?a = "Brownian_init (manifold fwd) (t0 fwd) (Some (tf fwd)) None None"
  have 1: "reverse (Brownian fwd) (Some score_fn) = Inr (ReverseBrownian ?a (Brownian fwd) score_fn)"
    by (simp add: ReverseBrownian_init_def)
  have 2: "beta_0 ?a = 1 / 10 \<and> beta_f ?a = 20 \<and> t0 ?a = tf fwd \<and> tf ?a = t0 fwd"
    by (simp add: Brownian_init_def)
  have 3: "beta_t ?a t = 1 / 10 + (t - tf fwd) / (t0 fwd - tf fwd) * (20 - 1 / 10)"
    by (simp add: beta_t_def Brownian_init_def)
  have 4: "marginal_prob ?a x ts =
         (zeros_like x,
          map (\<lambda>t. sqrt (1 - exp (2 * (- (1 / 4) * t ^ 2 * (20 - 1 / 10) - (1 / 2) * t * (1 / 10))))) ts)"
    by (simp add: marginal_prob_def Brownian_init_def comp_def)
  have 5: "marginal_log_prob ?a x0 x1 t =
         reshape_scalar (log_heat_kernel (manifold fwd) x0 x1
           (2 * ((1 / 4) * t ^ 2 * (20 - 1 / 10) + (1 / 2) * t * (1 / 10))))"
    by (simp add: marginal_log_prob_def Brownian_init_def)
  have 6: "G = ScalarDiffusion
                (map (\<lambda>t. sqrt (beta_0 fwd + (t - t0 fwd) / (tf fwd - t0 fwd) * (beta_f fwd - beta_0 fwd))) ts)"
    if "coefficients (ReverseBrownian ?a (Brownian fwd) score_fn) x ts = Inr (reverse_drift, G)"
    for reverse_drift G
    using that
    by (auto simp: bind_err_def Brownian_coefficients_def beta_t_def SDE_full_diffusion_matrix_def
          comp_def split: sum.splits)
  from 1 2 3 4 5 6 show ?thesis by blast
qed

theorem reverse_default_schedule_witness:
  "coefficients (ReverseBrownian (Brownian_init flat_manifold 0 (Some 1) None None)
                   (Brownian example_brownian) id_score) [[1, 2]] [1]
     = Inr ([[-4, -8]], ScalarDiffusion [sqrt 4])
   \<and> beta_t (Brownian_init flat_manifold 0 (Some 1) None None) 1 = 1 / 10
   \<and> beta_t example_brownian 1 = 4"
  using reverse_default_schedule [of example_brownian id_score 1 "[[1, 2]]" "[1]"]
  by (simp add: ReverseBrownian_init_def Brownian_init_def example_brownian_def beta_t_def
     bind_err_def Brownian_coefficients_def SDE_full_diffusion_matrix_def einsum_scalar_def
      bdim_def stretch_def msub_def vsub_def bcast2_def zeros_like_def id_score_def)


section \<open>Theorems about losses.py\<close>


text \<open>
  C3, as the code has it. In the DSM loss function, on a batch of \<open>N > 0\<close> points with scores
  of dimension \<open>d > 0\<close>, the per-example loss is the squared componentwise difference between
  the predicted score and the target score, reduced over the dimensions by \<open>reduce_op\<close> (the
  mean of the components, or their half-sum), and weighted: by the squared diffusion
  coefficient \<open>g(t)\<^sup>2\<close> when \<open>like_w = True\<close>, and by the square \<open>std(t)\<^sup>2\<close> of the marginal
  standard deviation \<open>std(t) = marginal_prob(0, t)[1]\<close> when \<open>like_w = False\<close>, because score
  and target are each multiplied by \<open>std(t)\<close> before the difference is squared. The target is
  the gradient of the marginal log-density when \<open>s_zero\<close> holds and the Varhadan approximation
  on the last step of the sampled path otherwise. The metric of the manifold is not used.
\<close>

theorem dsm_per_example_formula:
  assumes data: "batch ''data'' = Some points"
    and keys: "keys = dsm_key_schedule rng"
    and t: "t = sample_t (uniform_bits ext) (time_key keys) sde eps points"
    and sample: "s_zero \<Longrightarrow>
        x_t = s_marginal_sample sde (sample_key keys) points t
        \<and> logp_grad = snd (s_grad_marginal_log_prob sde points x_t t)"
    and hist: "\<not> s_zero \<Longrightarrow>
        s_marginal_sample_hist sde (sample_key keys) points t = (x_t, x_hist, timesteps)
        \<and> py_index x_hist (- 2) = Inr x_s
        \<and> py_index timesteps (- 2) = Inr t_s
        \<and> py_index timesteps (- 1) = Inr t_t
        \<and> logp_grad = fst (s_varhadan_exp sde x_s x_t t_s t_t)"
    and score: "score = fst (get_score_fn ext sde model params states train x_t t (score_key keys))"
    and std: "std = snd (s_marginal_prob sde (zeros_like x_t) t)"
    and g: "g = snd (s_coefficients sde (zeros_like points) t)"
    and shapes: "batch_shape N d score" "batch_shape N d logp_grad" "length std = N"
      "like_w \<longrightarrow> length g = N"
    and nonempty: "0 < N" "0 < d"
  shows "dsm_per_example_losses ext sde model train reduce_mean like_w eps s_zero rng params states batch
         = Inr (map (\<lambda>n. (if like_w then (g ! n) ^ 2 else (std ! n) ^ 2)
                          * reduce_op reduce_mean
                              (map2 (\<lambda>s l. (s - l) ^ 2) (score ! n) (logp_grad ! n)))
                  [0..<N],
                snd (get_score_fn ext sde model params states train x_t t (score_key keys)))"
proof -
  have weighted: "dsm_weighted_losses sde reduce_mean like_w points t (expand_dims_last std)
                    score logp_grad
         = Inr (map (\<lambda>n. (if like_w then (g ! n) ^ 2 else (std ! n) ^ 2)
                          * reduce_op reduce_mean
                              (map2 (\<lambda>s l. (s - l) ^ 2) (score ! n) (logp_grad ! n)))
                  [0..<N])"
    unfolding g
    using shapes(1-3) nonempty(1) shapes(4) [unfolded g]
    by (intro dsm_weighted_losses_value) simp_all
  have body: "dsm_per_example_losses ext sde model train reduce_mean like_w eps s_zero rng params
                states batch
        = bind_err (dsm_weighted_losses sde reduce_mean like_w points t (expand_dims_last std)
                      score logp_grad)
            (\<lambda>losses. Inr (losses,
               snd (get_score_fn ext sde model params states train x_t t (score_key keys))))"
  proof (cases s_zero)
    case True
    from sample [OF True]
    have x_t: "s_marginal_sample sde (sample_key keys) points t = x_t"
      and target: "snd (s_grad_marginal_log_prob sde points x_t t) = logp_grad"
      by simp_all
    show ?thesis
      by (simp only: dsm_per_example_losses_def Let_def data option.simps keys [symmetric]
          t [symmetric] True if_True x_t target std [symmetric] bind_err_def sum.case
          case_prod_unfold prod.sel score [symmetric])
  next
    case False
    from hist [OF False]
    have h: "s_marginal_sample_hist sde (sample_key keys) points t = (x_t, x_hist, timesteps)"
      and i: "py_index x_hist (- 2) = Inr x_s" "py_index timesteps (- 2) = Inr t_s"
        "py_index timesteps (- 1) = Inr t_t"
      and target: "fst (s_varhadan_exp sde x_s x_t t_s t_t) = logp_grad"
      by simp_all
    show ?thesis
      by (simp only: dsm_per_example_losses_def Let_def data option.simps keys [symmetric]
          t [symmetric] False if_False h i target std [symmetric] bind_err_def sum.case
          case_prod_unfold prod.sel score [symmetric])
  qed
  show ?thesis
    by (simp only: body weighted bind_err_def sum.case)
qed

theorem dsm_per_example_formula_witness:
  "dsm_per_example_losses example_ext flat_sde () True True False (1 / 1000) True
      (PRNGKey 0) () () one_point = Inr ([1], ())
   \<and> dsm_per_example_losses example_ext flat_sde () True True True (1 / 1000) False
      (PRNGKey 0) () () one_point = Inr ([4], ())"
proof -
  have data: "one_point ''data'' = Some [[0]]"
    by (simp add: one_point_def)
  have "dsm_per_example_losses example_ext flat_sde () True True False (1 / 1000) True
      (PRNGKey 0) () () one_point = Inr ([1], ())"
    using dsm_per_example_formula [where N = 1 and d = 1 and ext = example_ext and sde = flat_sde
        and rng = "PRNGKey 0" and eps = "1 / 1000" and model = "()" and params = "()"
        and states = "()" and train = True and batch = one_point and points = "[[0]]"
        and s_zero = True and like_w = False and reduce_mean = True
        and x_t = "[[0]]" and logp_grad = "[[0]]",
        OF data refl refl _ _ refl refl refl]
    by (simp add: batch_shape_def example_ext_def flat_sde_def zeros_like_def sample_t_def
        jax_uniform_def unit_float_def reduce_op_def jnp_mean_def power2_eq_square)
  moreover have "dsm_per_example_losses example_ext flat_sde () True True True (1 / 1000) False
      (PRNGKey 0) () () one_point = Inr ([4], ())"
    using dsm_per_example_formula [where N = 1 and d = 1 and ext = example_ext and sde = flat_sde
        and rng = "PRNGKey 0" and eps = "1 / 1000" and model = "()" and params = "()"
        and states = "()" and train = True and batch = one_point and points = "[[0]]"
        and s_zero = False and like_w = True and reduce_mean = True
        and x_t = "[[0]]" and logp_grad = "[[0]]" and x_hist = "[[[0]], [[0]]]"
        and timesteps = "[0, 1]" and x_s = "[[0]]" and t_s = 0 and t_t = 1,
        OF data refl refl _ _ refl refl refl]
    by (simp add: batch_shape_def example_ext_def flat_sde_def zeros_like_def sample_t_def
        jax_uniform_def unit_float_def reduce_op_def jnp_mean_def power2_eq_square py_index_def)
  ultimately show ?thesis by simp
qed


text \<open>
  C3, as the specification words it, fails, in the weight and in the reduction. With standard
  deviation \<open>1 / 2\<close>, score 2 and target 0 on one point of dimension 1, the per-example loss of
  the code is \<open>(1/2 * 2 - 1/2 * 0)\<^sup>2 = 1\<close>, while the squared norm scaled by the standard
  deviation is \<open>1/2 * 4 = 2\<close>. With \<open>like_w = True\<close>, diffusion coefficient 1, score \<open>(2, 2)\<close>
  and target \<open>(0, 0)\<close> on one point of the plane, the per-example loss of the code is 4 for
  both values of \<open>reduce_mean\<close> (the mean and the half-sum of \<open>(4, 4)\<close>), while the squared
  norm is 8.
\<close>

theorem dsm_std_counterexample:
  "dsm_per_example_losses example_ext flat_sde () True True False (1 / 1000) True
      (PRNGKey 0) () () one_point = Inr ([1], ())
   \<and> snd (s_marginal_prob flat_sde [[0]] [1 / 1000]) = [1 / 2]
   \<and> spec_dsm_losses flat_sde False [1 / 2] [1] [[2]] [[0]] [[0]] = [2]
   \<and> dsm_per_example_losses example_ext flat_sde () True True True (1 / 1000) True
      (PRNGKey 0) () () plane_point = Inr ([4], ())
   \<and> spec_dsm_losses flat_sde True [1 / 2] [1] [[2, 2]] [[0, 0]] [[1, 2]] = [8]
   \<and> dsm_per_example_losses example_ext flat_sde () True False True (1 / 1000) True
      (PRNGKey 0) () () plane_point = Inr ([4], ())"
  by (simp add: example_eval spec_dsm_losses_def)


text \<open>
  C4. In the ISM loss the per-example loss is \<open>0.5 * squared_norm(score) + div_score\<close>: the
  squared norm is the manifold metric's at \<open>x_t\<close>, and \<open>div_score\<close> is the inner product of
  the noise \<open>epsilon\<close> with the derivative of the score field along \<open>epsilon\<close>, where
  \<open>epsilon\<close> is drawn with the shape of the data. With \<open>like_w = True\<close> every per-example
  loss is multiplied by \<open>g(t)\<^sup>2\<close>. The arrays have one entry per batch element.
\<close>

theorem ism_per_example_formula:
  assumes data: "batch ''data'' = Some points"
    and keys: "keys = ism_key_schedule rng"
    and t: "t = sample_t (uniform_bits ext) (time_key keys) sde eps points"
    and x_t: "x_t = s_marginal_sample sde (sample_key keys) points t"
    and score_fn: "score_fn = get_score_fn ext sde model params states train"
    and epsilon: "epsilon = div_noise ext (noise_key keys) (shape points) hutchinson_type"
    and directional:
      "directional = jax_jvp ext (\<lambda>x. fst (score_fn x t (div_score_key keys))) x_t epsilon"
    and sq_norm: "sq_norm = s_squared_norm sde (fst (score_fn x_t t (score_key keys))) x_t"
    and g: "g = snd (s_coefficients sde (zeros_like points) t)"
    and shapes: "length sq_norm = N" "length directional = N" "length epsilon = N"
      "like_w \<longrightarrow> length g = N"
  shows "ism_per_example_losses ext sde model train like_w hutchinson_type eps rng params states batch
         = Inr (map (\<lambda>n. (if like_w then (g ! n) ^ 2 else 1)
                          * ((1 / 2) * sq_norm ! n
                             + sum_list (map2 (*) (directional ! n) (epsilon ! n))))
                  [0..<N],
                snd (score_fn x_t t (score_key keys)))"
proof -
  let ?div = "map2 (\<lambda>g e. sum_list (map2 (*) g e)) directional epsilon"
  let ?base = "map (\<lambda>n. (1 / 2) * sq_norm ! n + sum_list (map2 (*) (directional ! n) (epsilon ! n)))
                 [0..<N]"
  have add: "vadd (map (\<lambda>s. (1 / 2) * s) sq_norm) ?div = Inr ?base"
    using shapes(1-3) by (subst vadd_same) (auto intro!: nth_equalityI)
  have weighted: "(if like_w then vmul ?base (map (\<lambda>g. g ^ 2) g) else Inr ?base)
        = Inr (map (\<lambda>n. (if like_w then (g ! n) ^ 2 else 1)
                          * ((1 / 2) * sq_norm ! n
                             + sum_list (map2 (*) (directional ! n) (epsilon ! n))))
                  [0..<N])"
  proof (cases like_w)
    case True
    then have "length g = N" using shapes(4) by simp
    then show ?thesis
      using True by (subst vmul_same) (auto intro!: nth_equalityI simp: mult.commute)
  next
    case False
    then show ?thesis by simp
  qed
  have "ism_per_example_losses ext sde model train like_w hutchinson_type eps rng params states batch
        = bind_err (vadd (map (\<lambda>s. (1 / 2) * s) sq_norm) ?div) (\<lambda>losses.
          bind_err (if like_w then vmul losses (map (\<lambda>g. g ^ 2) g) else Inr losses)
            (\<lambda>losses. Inr (losses, snd (score_fn x_t t (score_key keys)))))"
    unfolding ism_per_example_losses_def get_div_fn_def Let_def case_prod_unfold
      keys t x_t score_fn epsilon directional sq_norm g
    by (simp only: data option.simps)
  then show ?thesis
    by (simp only: add weighted bind_err_def sum.case)
qed

theorem ism_per_example_formula_witness:
  "ism_per_example_losses linear_ext flat_sde () True True ''Rademacher'' (1 / 1000)
     (PRNGKey 0) () () plane_point = Inr ([9 / 2], ())
   \<and> ism_per_example_losses linear_ext flat_sde () True False ''Rademacher'' (1 / 1000)
     (PRNGKey 0) () () plane_point = Inr ([9 / 2], ())"
proof -
  have data: "plane_point ''data'' = Some [[1, 2]]"
    by (simp add: plane_point_def)
  note formula = ism_per_example_formula [where N = 1 and ext = linear_ext and rng = "PRNGKey 0"
        and sde = flat_sde and eps = "1 / 1000" and hutchinson_type = "''Rademacher''"
        and model = "()" and params = "()" and states = "()" and train = True
        and batch = plane_point and points = "[[1, 2]]",
      OF data refl refl refl refl refl refl refl refl]
  have "ism_per_example_losses linear_ext flat_sde () True True ''Rademacher'' (1 / 1000)
     (PRNGKey 0) () () plane_point = Inr ([9 / 2], ())"
    using formula [where like_w = True]
    by (simp add: linear_ext_def example_ext_def flat_sde_def shape_def ncols_def
        sample_t_def jax_uniform_def unit_float_def zeros_like_def)
  moreover have "ism_per_example_losses linear_ext flat_sde () True False ''Rademacher'' (1 / 1000)
     (PRNGKey 0) () () plane_point = Inr ([9 / 2], ())"
    using formula [where like_w = False]
    by (simp add: linear_ext_def example_ext_def flat_sde_def shape_def ncols_def
        sample_t_def jax_uniform_def unit_float_def zeros_like_def)
  ultimately show ?thesis by simp
qed







text \<open>
  C6. In the Moser-flow loss, with \<open>mu = base_density(x) - div(drift)(x)\<close>, every entry of
  \<open>mu_plus = max(eps, mu)\<close> is at least \<open>eps\<close> and every entry of
  \<open>mu_minus = eps - min(eps, mu)\<close> is at least 0, for every \<open>mu\<close> and every \<open>eps\<close>; and
  \<open>mu\<close> returns these two arrays whenever density and divergence have the same batch size.
\<close>

theorem moser_mu_bounds:
  "(moser_mu base div_fn noise hutchinson_type eps step_rng x = Inr (mu_plus, mu_minus) \<longrightarrow>
      (\<forall>m \<in> set mu_plus. eps \<le> m) \<and> (\<forall>m \<in> set mu_minus. 0 \<le> m))
   \<and> (length (log_prob base x)
        = length (div_fn x (map (\<lambda>_. 0) x) (noise step_rng (shape x) hutchinson_type)) \<longrightarrow>
      moser_mu base div_fn noise hutchinson_type eps step_rng x
        = Inr (map (\<lambda>m. max eps m)
                 (map2 (-) (map exp (log_prob base x))
                    (div_fn x (map (\<lambda>_. 0) x) (noise step_rng (shape x) hutchinson_type))),
               map (\<lambda>m. eps - min eps m)
                 (map2 (-) (map exp (log_prob base x))
                    (div_fn x (map (\<lambda>_. 0) x) (noise step_rng (shape x) hutchinson_type)))))"
proof -
  have bounds: "(\<forall>m \<in> set mu_plus. eps \<le> m) \<and> (\<forall>m \<in> set mu_minus. 0 \<le> m)"
    if "moser_mu base div_fn noise hutchinson_type eps step_rng x = Inr (mu_plus, mu_minus)"
    using that
    by (auto simp: moser_mu_def Let_def bind_err_def split: sum.splits)
  have total: "moser_mu base div_fn noise hutchinson_type eps step_rng x
        = Inr (map (\<lambda>m. max eps m)
                 (map2 (-) (map exp (log_prob base x))
                    (div_fn x (map (\<lambda>_. 0) x) (noise step_rng (shape x) hutchinson_type))),
               map (\<lambda>m. eps - min eps m)
                 (map2 (-) (map exp (log_prob base x))
                    (div_fn x (map (\<lambda>_. 0) x) (noise step_rng (shape x) hutchinson_type))))"
    if "length (log_prob base x)
        = length (div_fn x (map (\<lambda>_. 0) x) (noise step_rng (shape x) hutchinson_type))"
    using that
    by (simp add: moser_mu_def Let_def bind_err_def vsub_same del: map_map)
  from bounds total show ?thesis by blast
qed

theorem moser_mu_bounds_witness:
  "moser_mu example_base example_div_fn (div_noise example_ext) ''Rademacher'' (1 / 10)
      (PRNGKey 0) [[0, 0], [0, 0]] = Inr ([1 / 10, 1 / 10], [21 / 10, 21 / 10])
   \<and> (1 / 10 :: real) \<le> 1 / 10 \<and> (0 :: real) \<le> 21 / 10"
proof -
  have run: "moser_mu example_base example_div_fn (div_noise example_ext) ''Rademacher'' (1 / 10)
      (PRNGKey 0) [[0, 0], [0, 0]] = Inr ([1 / 10, 1 / 10], [21 / 10, 21 / 10])"
    by (simp add: moser_mu_def example_base_def example_div_fn_def Let_def bind_err_def vsub_same)
  from moser_mu_bounds [of example_base example_div_fn "div_noise example_ext" "''Rademacher''"
      "1 / 10" "PRNGKey 0" "[[0, 0], [0, 0]]" "[1 / 10, 1 / 10]" "[21 / 10, 21 / 10]"] run
  have "(\<forall>m \<in> set [1 / 10, 1 / 10 :: real]. 1 / 10 \<le> m)
        \<and> (\<forall>m \<in> set [21 / 10, 21 / 10 :: real]. 0 \<le> m)"
    by blast
  with run show ?thesis by simp
qed


text \<open>
  C7, as the code has it. The scalar returned by the DSM loss function is the batch mean of the
  per-example losses for both values of \<open>reduce_mean\<close>; an error of the per-example
  computation is passed on. \<open>reduce_mean\<close> selects how each per-example loss is reduced over
  the dimensions: the mean when \<open>True\<close>, the half-sum when \<open>False\<close>.
\<close>

theorem dsm_loss_batch_mean:
  "(dsm_per_example_losses ext sde model train reduce_mean like_w eps s_zero rng params states batch
      = Inr (losses, new_model_state) \<longrightarrow>
    dsm_loss_fn ext sde model train reduce_mean like_w eps s_zero rng params states batch
      = Inr (sum_list losses / real (length losses), new_model_state))
   \<and> (dsm_per_example_losses ext sde model train reduce_mean like_w eps s_zero rng params states batch
      = Inl e \<longrightarrow>
    dsm_loss_fn ext sde model train reduce_mean like_w eps s_zero rng params states batch = Inl e)
   \<and> reduce_op True row = sum_list row / real (length row)
   \<and> reduce_op False row = (1 / 2) * sum_list row"
  by (simp add: dsm_loss_fn_def bind_err_def jnp_mean_def reduce_op_def)

theorem dsm_loss_batch_mean_witness:
  "dsm_loss_fn example_ext flat_sde () True False True (1 / 1000) True
      (PRNGKey 0) () () three_points = Inr (sum_list [2, 2, 2] / real (length [2 :: real, 2, 2]), ())
   \<and> dsm_loss_fn example_ext flat_sde () True False True (1 / 1000) True
      (PRNGKey 0) () () Map.empty = Inl KeyError"
proof -
  have a: "dsm_per_example_losses example_ext flat_sde () True False True (1 / 1000) True
      (PRNGKey 0) () () three_points = Inr ([2, 2, 2], ())"
    by (rule three_losses)
  have b: "dsm_per_example_losses example_ext flat_sde () True False True (1 / 1000) True
      (PRNGKey 0) () () Map.empty = Inl KeyError"
    by (simp add: dsm_per_example_losses_def)
  have "dsm_loss_fn example_ext flat_sde () True False True (1 / 1000) True
      (PRNGKey 0) () () three_points = Inr (sum_list [2, 2, 2] / real (length [2 :: real, 2, 2]), ())"
    using dsm_loss_batch_mean [of example_ext flat_sde "()" True False True "1 / 1000" True
      "PRNGKey 0" "()" "()" three_points "[2, 2, 2]" "()"] a
    by simp
  moreover have "dsm_loss_fn example_ext flat_sde () True False True (1 / 1000) True
      (PRNGKey 0) () () Map.empty = Inl KeyError"
    using dsm_loss_batch_mean [of example_ext flat_sde "()" True False True "1 / 1000" True
      "PRNGKey 0" "()" "()" Map.empty _ _ KeyError] b
    by simp
  ultimately show ?thesis by simp
qed


text \<open>
  C7, as the specification words it, fails. With \<open>reduce_mean = False\<close> and three examples
  whose per-example losses are \<open>[2, 2, 2]\<close>, the returned scalar is their mean 2, not their
  half-sum 3.
\<close>

theorem dsm_half_sum_counterexample:
  "dsm_per_example_losses example_ext flat_sde () True False True (1 / 1000) True
      (PRNGKey 0) () () three_points = Inr ([2, 2, 2], ())
   \<and> dsm_loss_fn example_ext flat_sde () True False True (1 / 1000) True
      (PRNGKey 0) () () three_points = Inr (2, ())
   \<and> spec_dsm_scalar False [2, 2, 2] = 3
   \<and> dsm_loss_fn example_ext flat_sde () True False True (1 / 1000) True
      (PRNGKey 0) () () three_points \<noteq> Inr (spec_dsm_scalar False [2, 2, 2], ())"
  by (simp add: dsm_loss_fn_def three_losses bind_err_def jnp_mean_def spec_dsm_scalar_def)


text \<open>
  C9, as the code has it. The factories of the DSM and of the ISM loss return the loss function
  for every SDE and every \<open>eps\<close>: they check nothing and never fail. When
  \<open>t0 + eps < tf\<close>, every sampled time lies in \<open>[t0 + eps, tf]\<close>.
\<close>

theorem loss_fn_construction:
  "get_dsm_loss_fn ext sde model train reduce_mean like_w eps s_zero
     = Inr (dsm_loss_fn ext sde model train reduce_mean like_w eps s_zero)
   \<and> get_ism_loss_fn ext sde model train reduce_mean like_w hutchinson_type eps
     = Inr (ism_loss_fn ext sde model train like_w hutchinson_type eps)
   \<and> (s_t0 sde + eps < s_tf sde \<longrightarrow>
        (\<forall>\<tau> \<in> set (sample_t bits step_rng sde eps x_0). s_t0 sde + eps \<le> \<tau> \<and> \<tau> \<le> s_tf sde))"
proof -
  have "s_t0 sde + eps \<le> \<tau> \<and> \<tau> \<le> s_tf sde"
    if "s_t0 sde + eps < s_tf sde" and "\<tau> \<in> set (sample_t bits step_rng sde eps x_0)" for \<tau>
    using jax_uniform_range [OF that(1), of \<tau> bits step_rng "length x_0"] that(2)
    by (simp add: sample_t_def)
  then show ?thesis
    by (simp add: get_dsm_loss_fn_def get_ism_loss_fn_def)
qed

theorem loss_fn_construction_witness:
  "s_t0 flat_sde + 1 / 1000 < s_tf flat_sde
   \<and> sample_t (uniform_bits example_ext) (PRNGKey 0) flat_sde (1 / 1000) [[0], [0], [0]]
       = [1 / 1000, 1 / 1000, 1 / 1000]
   \<and> s_t0 flat_sde + 1 / 1000 \<le> 1 / 1000 \<and> 1 / 1000 \<le> s_tf flat_sde
   \<and> get_dsm_loss_fn example_ext flat_sde () True True True (1 / 1000) True
       = Inr (dsm_loss_fn example_ext flat_sde () True True True (1 / 1000) True)"
proof -
  have a: "s_t0 flat_sde + 1 / 1000 < s_tf flat_sde" by (simp add: flat_sde_def)
  note construction = loss_fn_construction [of example_ext flat_sde "()" True True True "1 / 1000" True
      "''Rademacher''" "uniform_bits example_ext" "PRNGKey 0" "[[0], [0], [0]]"]
  from construction a
  have "\<forall>\<tau> \<in> set (sample_t (uniform_bits example_ext) (PRNGKey 0) flat_sde (1 / 1000) [[0], [0], [0]]).
         s_t0 flat_sde + 1 / 1000 \<le> \<tau> \<and> \<tau> \<le> s_tf flat_sde"
    by blast
  then have "s_t0 flat_sde + 1 / 1000 \<le> 1 / 1000 \<and> 1 / 1000 \<le> s_tf flat_sde"
    by (simp add: example_times)
  moreover from construction
  have "get_dsm_loss_fn example_ext flat_sde () True True True (1 / 1000) True
       = Inr (dsm_loss_fn example_ext flat_sde () True True True (1 / 1000) True)"
    by blast
  ultimately show ?thesis using a by (simp add: example_times)
qed


text \<open>
  C9, as the specification words it, fails. On the interval \<open>[0, 1]\<close> with \<open>eps = 2\<close> both
  factories return a loss function and not an error; the loss function then samples the time
  \<open>t = 2\<close>, outside the interval, and returns a loss.
\<close>

theorem no_configuration_error_counterexample:
  "s_tf flat_sde \<le> s_t0 flat_sde + 2
   \<and> \<not> isl (get_dsm_loss_fn example_ext flat_sde () True True True 2 True)
   \<and> \<not> isl (get_ism_loss_fn example_ext flat_sde () True True True ''Rademacher'' 2)
   \<and> sample_t (uniform_bits example_ext) (time_key (dsm_key_schedule (PRNGKey 0))) flat_sde 2 [[0]]
       = [2]
   \<and> dsm_loss_fn example_ext flat_sde () True True True 2 True (PRNGKey 0) () () one_point
       = Inr (4, ())"
  by (simp add: get_dsm_loss_fn_def get_ism_loss_fn_def dsm_loss_fn_def
      dsm_per_example_losses_def one_point_def dsm_key_schedule_def random_split_def
      sample_t_def jax_uniform_def example_ext_def flat_sde_def unit_float_def
      expand_dims_last_def zeros_like_def bind_err_def dsm_weighted_losses_def batch_mul_def
      vmul_def msub_def vsub_def bcast2_def bdim_def stretch_def jnp_square_def reduce_op_def
      reshape_rows_def jnp_mean_def power2_eq_square Let_def)

end
